theory Spec2Isabelle
  imports Complex_Main
begin

section \<open>Vectors\<close>

text \<open>
  The C++ sources compute on \<^verbatim>\<open>double\<close>. Here a \<^verbatim>\<open>double\<close> is a real number: the
  arithmetic is exact, and there is no rounding, infinity or NaN. A quotient by zero is
  0 in HOL where the double is an infinity or NaN. The value function divides by the net
  authority \<open>a_max - d_a\<close> of an axis, so its surfaces, value, gradient and tracking bound
  are modelled for axes with \<open>a_max \<noteq> d_a\<close>: every theorem on what they are carries that
  hypothesis, and every example, witness and counterexample divides by a nonzero number.
  \<^verbatim>\<open>Priority\<close> clamps its quotient, and there the case of a zero divisor is written out
  as the doubles behave. A radius that is NaN has a model of its own at \<^verbatim>\<open>AddObstacle\<close>.

  \<^verbatim>\<open>Vector3d\<close> is Eigen's fixed-size vector of three doubles, \<^verbatim>\<open>VectorXd\<close> the
  dynamically sized one. \<open>coeff v i\<close> is \<^verbatim>\<open>v(i)\<close>; every loop of the sources reads
  a \<^verbatim>\<open>Vector3d\<close> at the indices 0, 1 and 2 only.
\<close>

datatype Vector3d = Vector3d real real real

type_synonym VectorXd = "real list"

fun coeff :: "Vector3d \<Rightarrow> nat \<Rightarrow> real" where
  "coeff (Vector3d a b c) i = (if i = 0 then a else if i = 1 then b else c)"

fun set_coeff :: "Vector3d \<Rightarrow> nat \<Rightarrow> real \<Rightarrow> Vector3d" where
  "set_coeff (Vector3d a b c) i y =
     (if i = 0 then Vector3d y b c else if i = 1 then Vector3d a y c else Vector3d a b y)"

definition Zero3 :: Vector3d where
  "Zero3 = Vector3d 0 0 0"

fun vminus :: "Vector3d \<Rightarrow> Vector3d \<Rightarrow> Vector3d" where
  "vminus (Vector3d a b c) (Vector3d a' b' c') = Vector3d (a - a') (b - b') (c - c')"

fun vplus :: "Vector3d \<Rightarrow> Vector3d \<Rightarrow> Vector3d" where
  "vplus (Vector3d a b c) (Vector3d a' b' c') = Vector3d (a + a') (b + b') (c + c')"

fun smult :: "real \<Rightarrow> Vector3d \<Rightarrow> Vector3d" where
  "smult k (Vector3d a b c) = Vector3d (k * a) (k * b) (k * c)"

fun cwiseAbs :: "Vector3d \<Rightarrow> Vector3d" where
  "cwiseAbs (Vector3d a b c) = Vector3d (abs a) (abs b) (abs c)"

fun cwiseProduct :: "Vector3d \<Rightarrow> Vector3d \<Rightarrow> Vector3d" where
  "cwiseProduct (Vector3d a b c) (Vector3d a' b' c') = Vector3d (a * a') (b * b') (c * c')"

fun cwiseQuotient :: "Vector3d \<Rightarrow> Vector3d \<Rightarrow> Vector3d" where
  "cwiseQuotient (Vector3d a b c) (Vector3d a' b' c') = Vector3d (a / a') (b / b') (c / c')"

text \<open>\<^verbatim>\<open>v.squaredNorm()\<close> and \<^verbatim>\<open>v.norm()\<close>, the Euclidean length.\<close>

fun squaredNorm :: "Vector3d \<Rightarrow> real" where
  "squaredNorm (Vector3d a b c) = a * a + b * b + c * c"

definition norm_v :: "Vector3d \<Rightarrow> real" where
  "norm_v v = sqrt (squaredNorm v)"

text \<open>\<^verbatim>\<open>x.tail<3>()\<close>: the last three coefficients of a dynamic vector.\<close>

definition tail3 :: "VectorXd \<Rightarrow> Vector3d" where
  "tail3 xs = (let n = length xs in Vector3d (xs ! (n - 3)) (xs ! (n - 2)) (xs ! (n - 1)))"

text \<open>The implicit conversion of a \<^verbatim>\<open>Vector3d\<close> to a \<^verbatim>\<open>VectorXd\<close>.\<close>

fun to_VectorXd :: "Vector3d \<Rightarrow> VectorXd" where
  "to_VectorXd (Vector3d a b c) = [a, b, c]"

text \<open>\<^verbatim>\<open>VectorXd::Zero(n)\<close>.\<close>

definition ZeroX :: "nat \<Rightarrow> VectorXd" where
  "ZeroX n = replicate n 0"

section \<open>The analytical point-mass value function\<close>

text \<open>
  The members of \<^verbatim>\<open>AnalyticalPointMassValueFunction\<close> (the trailing underscore of
  the C++ names is dropped). \<^verbatim>\<open>x_dim_\<close> and \<^verbatim>\<open>u_dim_\<close> are fixed to 6 and 3 by the
  constructor's call of the base class, \<^verbatim>\<open>p_dim_\<close> is the constant 3.
\<close>

record AnalyticalPointMassValueFunction =
  u_max :: Vector3d
  u_min :: Vector3d
  d_v :: Vector3d
  d_a :: Vector3d
  a_max :: Vector3d
  u2a :: Vector3d
  max_planner_speed :: Vector3d
  expand :: Vector3d

definition p_dim :: nat where
  "p_dim = 3"

definition x_dim :: nat where
  "x_dim = 6"

text \<open>
  The two parabolic surfaces, computed alike by \<^verbatim>\<open>Value\<close>, \<^verbatim>\<open>Gradient\<close> and
  \<^verbatim>\<open>OptimalControl\<close> as the locals \<^verbatim>\<open>V_A\<close> and \<^verbatim>\<open>V_B\<close> of their loop bodies. They are
  the source's surfaces on an axis with \<open>a_max \<noteq> d_a\<close>; on an axis with \<open>a_max = d_a\<close> the
  source's are infinite or NaN, which these reals are not.
\<close>

definition V_A :: "AnalyticalPointMassValueFunction \<Rightarrow> VectorXd \<Rightarrow> nat \<Rightarrow> real" where
  "V_A vf state dm =
     (let x = state ! dm;
          v = state ! (p_dim + dm);
          v_ref = coeff (max_planner_speed vf) dm
      in - x + (0.5 * (v - v_ref) * (v - v_ref) - v_ref * v_ref * (1.0 + coeff (expand vf) dm)) /
               (coeff (a_max vf) dm - coeff (d_a vf) dm))"

definition V_B :: "AnalyticalPointMassValueFunction \<Rightarrow> VectorXd \<Rightarrow> nat \<Rightarrow> real" where
  "V_B vf state dm =
     (let x = state ! dm;
          v = state ! (p_dim + dm);
          v_ref = coeff (max_planner_speed vf) dm
      in x - (- 0.5 * (v + v_ref) * (v + v_ref) + v_ref * v_ref * (1.0 + coeff (expand vf) dm)) /
             (coeff (a_max vf) dm - coeff (d_a vf) dm))"

text \<open>
  \<^verbatim>\<open>Value\<close> starts its running maximum at minus infinity, the one non-real double the
  model keeps: \<open>max_ext\<close> is \<^verbatim>\<open>std::max(V, V_this_dim)\<close> on such an accumulator.
  The loop runs over the \<open>p_dim\<close> axes; with \<open>a_max \<noteq> d_a\<close> in every axis the surfaces
  are numbers, the result is finite (\<open>Value_loop_Finite\<close> below) and \<open>Value\<close> reads the
  real out of it. (A NaN surface would be dropped by \<^verbatim>\<open>std::max\<close>; the model has none.)
\<close>

datatype double_ext = NegInfinity | Finite real

fun max_ext :: "double_ext \<Rightarrow> real \<Rightarrow> double_ext" where
  "max_ext NegInfinity y = Finite y"
| "max_ext (Finite x) y = Finite (max x y)"

primrec finite_part :: "double_ext \<Rightarrow> real" where
  "finite_part (Finite x) = x"

definition Value_step :: "AnalyticalPointMassValueFunction \<Rightarrow> VectorXd \<Rightarrow> nat \<Rightarrow> double_ext \<Rightarrow> double_ext" where
  "Value_step vf state dm V =
     (let V_this_dim = max (V_A vf state dm) (V_B vf state dm)
      in max_ext V V_this_dim)"

definition Value_loop :: "AnalyticalPointMassValueFunction \<Rightarrow> VectorXd \<Rightarrow> double_ext" where
  "Value_loop vf state = fold (Value_step vf state) [0..<p_dim] NegInfinity"

definition Value :: "AnalyticalPointMassValueFunction \<Rightarrow> VectorXd \<Rightarrow> real" where
  "Value vf state = finite_part (Value_loop vf state)"

text \<open>
  \<^verbatim>\<open>Gradient\<close>: \<^verbatim>\<open>grad_V\<close> starts as \<^verbatim>\<open>VectorXd::Zero(x_dim_)\<close>; each axis writes two
  entries, the second a quotient by \<open>a_max - d_a\<close> (modelled for \<open>a_max \<noteq> d_a\<close>).
\<close>

definition Gradient_step :: "AnalyticalPointMassValueFunction \<Rightarrow> VectorXd \<Rightarrow> nat \<Rightarrow> VectorXd \<Rightarrow> VectorXd" where
  "Gradient_step vf state dm grad_V =
     (let v = state ! (p_dim + dm);
          v_ref = coeff (max_planner_speed vf) dm
      in if V_A vf state dm > V_B vf state dm
         then (grad_V[dm := - 1.0])
                [p_dim + dm := (v - v_ref) / (coeff (a_max vf) dm - coeff (d_a vf) dm)]
         else (grad_V[dm := 1.0])
                [p_dim + dm := (v + v_ref) / (coeff (a_max vf) dm - coeff (d_a vf) dm)])"

definition Gradient :: "AnalyticalPointMassValueFunction \<Rightarrow> VectorXd \<Rightarrow> VectorXd" where
  "Gradient vf state = fold (Gradient_step vf state) [0..<p_dim] (ZeroX x_dim)"

text \<open>
  \<^verbatim>\<open>OptimalControl\<close>. The inside rule stands behind \<^verbatim>\<open>if (false)\<close> in the source and is
  kept here behind \<open>if False\<close>.
\<close>

definition OptimalControl_step :: "AnalyticalPointMassValueFunction \<Rightarrow> VectorXd \<Rightarrow> nat \<Rightarrow> Vector3d \<Rightarrow> Vector3d" where
  "OptimalControl_step vf state dm u_opt =
     (let x = state ! dm;
          VA = V_A vf state dm;
          VB = V_B vf state dm;
          u_acc = (if coeff (u2a vf) dm > 0.0 then coeff (u_max vf) dm else coeff (u_min vf) dm);
          u_dec = (if coeff (u2a vf) dm > 0.0 then coeff (u_min vf) dm else coeff (u_max vf) dm)
      in if False then set_coeff u_opt dm (if VA > VB then u_acc else u_dec)
         else if x \<ge> 0 then set_coeff u_opt dm (if VA < 0 then u_dec else u_acc)
         else set_coeff u_opt dm (if VB < 0 then u_acc else u_dec))"

definition OptimalControl :: "AnalyticalPointMassValueFunction \<Rightarrow> VectorXd \<Rightarrow> VectorXd" where
  "OptimalControl vf state = to_VectorXd (fold (OptimalControl_step vf state) [0..<p_dim] Zero3)"

text \<open>
  \<^verbatim>\<open>Priority\<close>. When \<^verbatim>\<open>V_high - V_low\<close> is zero the double quotient is an infinity or NaN,
  which \<^verbatim>\<open>std::min(std::max(0.0, q), 1.0)\<close> clamps: plus infinity to 1, minus infinity and
  NaN to 0 (\<^verbatim>\<open>std::max(0.0, NaN)\<close> is its first argument). That case is written out.
\<close>

definition Priority :: "AnalyticalPointMassValueFunction \<Rightarrow> VectorXd \<Rightarrow> real" where
  "Priority vf state =
     (let V = Value vf state;
          relative_high = 0.20;
          relative_low = 0.05;
          V_safest = Value vf (ZeroX 6);
          V_high = relative_high * V_safest;
          V_low = relative_low * V_safest;
          clamped = (if V_high - V_low = 0 then (if V - V_low > 0 then 1.0 else 0.0)
                     else min (max 0.0 ((V - V_low) / (V_high - V_low))) 1.0)
      in 1.0 - clamped)"

text \<open>\<^verbatim>\<open>TrackingBound\<close>, a quotient by \<open>a_max - d_a\<close> (modelled for \<open>a_max \<noteq> d_a\<close>).\<close>

definition TrackingBound :: "AnalyticalPointMassValueFunction \<Rightarrow> nat \<Rightarrow> real" where
  "TrackingBound vf dm =
     (let v_ref = coeff (max_planner_speed vf) dm
      in 0.5 * (v_ref + coeff (d_v vf) dm) * (v_ref + coeff (d_v vf) dm) * (1.0 + coeff (expand vf) dm)
           / (coeff (a_max vf) dm - coeff (d_a vf) dm))"

definition SwitchingTrackingBound ::
  "AnalyticalPointMassValueFunction \<Rightarrow> nat \<Rightarrow> AnalyticalPointMassValueFunction \<Rightarrow> real" where
  "SwitchingTrackingBound this dm val = TrackingBound val dm"

text \<open>
  The constructor. \<^verbatim>\<open>dynamics_->Evaluate\<close> is a virtual call on the \<^verbatim>\<open>Dynamics\<close> handed
  in, so the dynamics is the function \<open>Evaluate\<close>, a parameter. The constructor has no
  check and no failing branch; \<^verbatim>\<open>Create\<close> wraps the new object in a shared pointer,
  modelled as an option whose \<open>None\<close> would be "no value function".
\<close>

definition construct ::
  "Vector3d \<Rightarrow> Vector3d \<Rightarrow> Vector3d \<Rightarrow> Vector3d \<Rightarrow> Vector3d \<Rightarrow> Vector3d \<Rightarrow>
   (VectorXd \<Rightarrow> VectorXd \<Rightarrow> VectorXd) \<Rightarrow> AnalyticalPointMassValueFunction" where
  "construct max_planner_speed' max_tracker_control min_tracker_control
             max_vel_disturbance max_acc_disturbance expansion_vel Evaluate =
     (let x_dot_max = Evaluate (ZeroX 6) (to_VectorXd max_tracker_control);
          a_max' = cwiseAbs (tail3 x_dot_max);
          u2a' = cwiseQuotient (tail3 x_dot_max)
                   (smult 0.5 (vminus max_tracker_control min_tracker_control));
          expand' = cwiseQuotient
                      (cwiseProduct expansion_vel
                         (vplus (smult 2 max_planner_speed') (smult 0.5 expansion_vel)))
                      (vminus a_max' max_acc_disturbance)
      in \<lparr> u_max = max_tracker_control, u_min = min_tracker_control,
           d_v = max_vel_disturbance, d_a = max_acc_disturbance,
           a_max = a_max', u2a = u2a',
           max_planner_speed = max_planner_speed', expand = expand' \<rparr>)"

definition Create ::
  "Vector3d \<Rightarrow> Vector3d \<Rightarrow> Vector3d \<Rightarrow> Vector3d \<Rightarrow> Vector3d \<Rightarrow> Vector3d \<Rightarrow>
   (VectorXd \<Rightarrow> VectorXd \<Rightarrow> VectorXd) \<Rightarrow> AnalyticalPointMassValueFunction option" where
  "Create max_planner_speed' max_tracker_control min_tracker_control
          max_vel_disturbance max_acc_disturbance expansion_vel Evaluate =
     Some (construct max_planner_speed' max_tracker_control min_tracker_control
             max_vel_disturbance max_acc_disturbance expansion_vel Evaluate)"

text \<open>
  \<^verbatim>\<open>NearHoverQuadNoYaw::Evaluate\<close>, the one \<^verbatim>\<open>Dynamics\<close> whose body is in the sources.
  \<^verbatim>\<open>constants::G\<close> is declared elsewhere and is the parameter \<open>G\<close>.
\<close>

definition NearHoverQuadNoYaw_Evaluate :: "real \<Rightarrow> VectorXd \<Rightarrow> VectorXd \<Rightarrow> VectorXd" where
  "NearHoverQuadNoYaw_Evaluate G x u =
     [x ! 1, G * tan (u ! 0), x ! 3, G * tan (u ! 1), x ! 5, u ! 2 - G]"

section \<open>The box with spherical obstacles\<close>

text \<open>
  \<^verbatim>\<open>BallsInBox\<close>: the bounds \<^verbatim>\<open>lower_\<close> and \<^verbatim>\<open>upper_\<close> inherited from \<^verbatim>\<open>Box\<close>, and the
  parallel vectors \<^verbatim>\<open>points_\<close> and \<^verbatim>\<open>radii_\<close>. The constructor of \<^verbatim>\<open>Box\<close> and its
  \<^verbatim>\<open>SetBounds\<close> are not among the sources, so \<open>BallsInBox_Create\<close> takes the bounds as
  parameters; the obstacle vectors start empty.
\<close>

record BallsInBox =
  lower :: Vector3d
  upper :: Vector3d
  points :: "Vector3d list"
  radii :: "real list"

definition BallsInBox_Create :: "Vector3d \<Rightarrow> Vector3d \<Rightarrow> BallsInBox" where
  "BallsInBox_Create lo up = \<lparr> lower = lo, upper = up, points = [], radii = [] \<rparr>"

text \<open>The first loop of \<^verbatim>\<open>IsValid\<close>, over the axes still to check; it returns at the first violation.\<close>

fun IsValid_bounds ::
  "BallsInBox \<Rightarrow> Vector3d \<Rightarrow> AnalyticalPointMassValueFunction \<Rightarrow> AnalyticalPointMassValueFunction \<Rightarrow>
   nat list \<Rightarrow> bool" where
  "IsValid_bounds env position incoming_value outgoing_value [] = True"
| "IsValid_bounds env position incoming_value outgoing_value (ii # rest) =
     (let bound = SwitchingTrackingBound outgoing_value ii incoming_value
      in if coeff position ii < coeff (lower env) ii + bound \<or>
            coeff position ii > coeff (upper env) ii - bound
         then False
         else IsValid_bounds env position incoming_value outgoing_value rest)"

text \<open>The inner loop over \<^verbatim>\<open>jj\<close>: the corner of the tracking-bound box chosen for obstacle centre \<open>p\<close>.\<close>

definition corner_step ::
  "Vector3d \<Rightarrow> Vector3d \<Rightarrow> AnalyticalPointMassValueFunction \<Rightarrow> AnalyticalPointMassValueFunction \<Rightarrow>
   nat \<Rightarrow> Vector3d \<Rightarrow> Vector3d" where
  "corner_step position p incoming_value outgoing_value jj corner =
     (let bound = SwitchingTrackingBound outgoing_value jj incoming_value
      in set_coeff corner jj
           (if coeff position jj - coeff p jj > 0.0 then coeff position jj - bound
            else coeff position jj + bound))"

definition closest_corner ::
  "Vector3d \<Rightarrow> Vector3d \<Rightarrow> AnalyticalPointMassValueFunction \<Rightarrow> AnalyticalPointMassValueFunction \<Rightarrow> Vector3d" where
  "closest_corner position p incoming_value outgoing_value =
     fold (corner_step position p incoming_value outgoing_value) [0..<3] Zero3"

text \<open>The second loop of \<^verbatim>\<open>IsValid\<close>, over the obstacle indices still to check.\<close>

fun IsValid_obstacles ::
  "BallsInBox \<Rightarrow> Vector3d \<Rightarrow> AnalyticalPointMassValueFunction \<Rightarrow> AnalyticalPointMassValueFunction \<Rightarrow>
   nat list \<Rightarrow> bool" where
  "IsValid_obstacles env position incoming_value outgoing_value [] = True"
| "IsValid_obstacles env position incoming_value outgoing_value (ii # rest) =
     (let p = points env ! ii
      in if norm_v (vminus position p) \<le> radii env ! ii then False
         else if norm_v (vminus (closest_corner position p incoming_value outgoing_value) p)
                   \<le> radii env ! ii then False
         else IsValid_obstacles env position incoming_value outgoing_value rest)"

definition IsValid ::
  "BallsInBox \<Rightarrow> Vector3d \<Rightarrow> AnalyticalPointMassValueFunction \<Rightarrow> AnalyticalPointMassValueFunction \<Rightarrow> bool" where
  "IsValid env position incoming_value outgoing_value =
     (if \<not> IsValid_bounds env position incoming_value outgoing_value [0..<3] then False
      else IsValid_obstacles env position incoming_value outgoing_value [0..<length (points env)])"

text \<open>
  \<^verbatim>\<open>SenseObstacles\<close> clears the two output vectors, appends to them and returns whether
  any obstacle was found: the result is the triple (found, positions, radii).
\<close>

definition SenseObstacles_step ::
  "BallsInBox \<Rightarrow> Vector3d \<Rightarrow> real \<Rightarrow> nat \<Rightarrow> Vector3d list \<times> real list \<Rightarrow> Vector3d list \<times> real list" where
  "SenseObstacles_step env position sensor_radius ii out =
     (if norm_v (vminus position (points env ! ii)) \<le> radii env ! ii + sensor_radius
      then (fst out @ [points env ! ii], snd out @ [radii env ! ii])
      else out)"

definition SenseObstacles :: "BallsInBox \<Rightarrow> Vector3d \<Rightarrow> real \<Rightarrow> bool \<times> Vector3d list \<times> real list" where
  "SenseObstacles env position sensor_radius =
     (let out = fold (SenseObstacles_step env position sensor_radius)
                  [0..<length (points env)] ([], [])
      in (length (fst out) > 0, fst out, snd out))"

text \<open>\<^verbatim>\<open>IsObstacle\<close>: the loop returns true at the first stored obstacle within tolerance.\<close>

fun IsObstacle_loop :: "BallsInBox \<Rightarrow> Vector3d \<Rightarrow> real \<Rightarrow> nat list \<Rightarrow> bool" where
  "IsObstacle_loop env obstacle_position obstacle_radius [] = False"
| "IsObstacle_loop env obstacle_position obstacle_radius (ii # rest) =
     (if norm_v (vminus obstacle_position (points env ! ii)) < 1 / 10 ^ 8 \<and>
         \<bar>obstacle_radius - radii env ! ii\<bar> < 1 / 10 ^ 8
      then True
      else IsObstacle_loop env obstacle_position obstacle_radius rest)"

definition IsObstacle :: "BallsInBox \<Rightarrow> Vector3d \<Rightarrow> real \<Rightarrow> bool" where
  "IsObstacle env obstacle_position obstacle_radius =
     IsObstacle_loop env obstacle_position obstacle_radius [0..<length (points env)]"

definition kSmallNumber :: real where
  "kSmallNumber = 1 / 10 ^ 8"

text \<open>
  \<^verbatim>\<open>AddObstacle\<close>, for a radius that is a number. What the source's
  \<^verbatim>\<open>std::max(r, kSmallNumber)\<close> stores for a radius that is NaN is \<open>stored_radius\<close> below.
\<close>

definition AddObstacle :: "BallsInBox \<Rightarrow> Vector3d \<Rightarrow> real \<Rightarrow> BallsInBox" where
  "AddObstacle env point r =
     env \<lparr> points := points env @ [point], radii := radii env @ [max r kSmallNumber] \<rparr>"

text \<open>
  The same clamp on a double that may be NaN. \<^verbatim>\<open>std::max(a, b)\<close> is \<^verbatim>\<open>(a < b) ? b : a\<close>, and
  every comparison with NaN is false. (Infinite radii are left out: the clamp keeps plus
  infinity and replaces minus infinity, as it does large and small numbers.)
\<close>

datatype double = NaN | Number real

fun less_double :: "double \<Rightarrow> double \<Rightarrow> bool" where
  "less_double (Number a) (Number b) = (a < b)"
| "less_double a b = False"

fun less_eq_double :: "double \<Rightarrow> double \<Rightarrow> bool" where
  "less_eq_double (Number a) (Number b) = (a \<le> b)"
| "less_eq_double a b = False"

definition std_max :: "double \<Rightarrow> double \<Rightarrow> double" where
  "std_max a b = (if less_double a b then b else a)"

definition stored_radius :: "double \<Rightarrow> double" where
  "stored_radius r = std_max r (Number kSmallNumber)"

text \<open>
  \<^verbatim>\<open>Tracker::SensorCallback\<close>, as far as the box goes: the observed obstacle is inserted
  unless \<^verbatim>\<open>IsObstacle\<close> says the map "has already seen this point". Replanning and
  publishing leave the box as it is.
\<close>

definition SensorCallback :: "BallsInBox \<Rightarrow> Vector3d \<Rightarrow> real \<Rightarrow> BallsInBox" where
  "SensorCallback space point radius =
     (if \<not> IsObstacle space point radius then AddObstacle space point radius else space)"

text \<open>
  The operations a client can apply to a box. The three queries are \<^verbatim>\<open>const\<close> member
  functions: they return their answer and the box is the one they were given.
\<close>

datatype operation =
    OpAddObstacle Vector3d real
  | OpIsValid Vector3d AnalyticalPointMassValueFunction AnalyticalPointMassValueFunction
  | OpSenseObstacles Vector3d real
  | OpIsObstacle Vector3d real

fun apply_operation :: "BallsInBox \<Rightarrow> operation \<Rightarrow> BallsInBox" where
  "apply_operation env (OpAddObstacle point r) = AddObstacle env point r"
| "apply_operation env (OpIsValid position incoming_value outgoing_value) = env"
| "apply_operation env (OpSenseObstacles position sensor_radius) = env"
| "apply_operation env (OpIsObstacle obstacle_position obstacle_radius) = env"

inductive reachable :: "BallsInBox \<Rightarrow> bool" where
  created: "reachable (BallsInBox_Create lo up)"
| stepped: "reachable env \<Longrightarrow> reachable (apply_operation env op)"

definition obstacle_invariant :: "BallsInBox \<Rightarrow> bool" where
  "obstacle_invariant env \<longleftrightarrow>
     length (points env) = length (radii env) \<and> list_all (\<lambda>r. r \<ge> 1 / 10 ^ 8) (radii env)"

text \<open>
  The decision rule of \<^verbatim>\<open>OptimalControl\<close> as the specification words it, for comparison
  with the source's: at a position \<open>\<ge> 0\<close> brake unless the acceleration surface is
  negative, then accelerate; at a position \<open>< 0\<close> accelerate unless the braking surface is
  negative, then brake.
\<close>

definition claimed_control :: "AnalyticalPointMassValueFunction \<Rightarrow> VectorXd \<Rightarrow> nat \<Rightarrow> real" where
  "claimed_control vf state dm =
     (let u_acc = (if coeff (u2a vf) dm > 0 then coeff (u_max vf) dm else coeff (u_min vf) dm);
          u_dec = (if coeff (u2a vf) dm > 0 then coeff (u_min vf) dm else coeff (u_max vf) dm)
      in if state ! dm \<ge> 0 then (if V_A vf state dm < 0 then u_acc else u_dec)
         else (if V_B vf state dm < 0 then u_dec else u_acc))"

text \<open>
  The closed form that \<^verbatim>\<open>TrackingBound\<close> takes on a constructed value function, in the planner
  speed \<open>v\<close>, the velocity disturbance \<open>dv\<close>, the expansion velocity \<open>e\<close> and the net
  authority \<open>k = a_max - d_a\<close>; a shorthand of the proofs, tied to the source by
  \<open>TrackingBound_construct\<close>.
\<close>

definition bound_formula :: "real \<Rightarrow> real \<Rightarrow> real \<Rightarrow> real \<Rightarrow> real" where
  "bound_formula v dv e k = 0.5 * (v + dv) * (v + dv) * (1 + e * (2 * v + 0.5 * e) / k) / k"

section \<open>Basic facts\<close>

lemma upt_3: "[0..<3] = [0, 1, 2]"
  by (simp add: upt_rec)

lemma p_dim_upt: "[0..<p_dim] = [0, 1, 2]"
  by (simp add: p_dim_def upt_rec)

lemma norm_v_le_iff: "norm_v v \<le> r \<longleftrightarrow> 0 \<le> r \<and> squaredNorm v \<le> r * r"
proof -
  have nn: "0 \<le> squaredNorm v" by (cases v) simp
  show ?thesis
  proof (cases "0 \<le> r")
    case True
    have "sqrt (squaredNorm v) \<le> r \<longleftrightarrow> sqrt (squaredNorm v) \<le> sqrt (r * r)"
      using True by simp
    also have "\<dots> \<longleftrightarrow> squaredNorm v \<le> r * r" by (rule real_sqrt_le_iff)
    finally show ?thesis using True by (simp add: norm_v_def)
  next
    case False
    have "0 \<le> norm_v v" by (simp add: norm_v_def nn)
    with False show ?thesis by auto
  qed
qed

lemma norm_v_less_iff: "norm_v v < r \<longleftrightarrow> 0 < r \<and> squaredNorm v < r * r"
proof -
  have nn: "0 \<le> squaredNorm v" by (cases v) simp
  show ?thesis
  proof (cases "0 < r")
    case True
    have "sqrt (squaredNorm v) < r \<longleftrightarrow> sqrt (squaredNorm v) < sqrt (r * r)"
      using True by simp
    also have "\<dots> \<longleftrightarrow> squaredNorm v < r * r" by (rule real_sqrt_less_iff)
    finally show ?thesis using True by (simp add: norm_v_def)
  next
    case False
    have "0 \<le> norm_v v" by (simp add: norm_v_def nn)
    with False show ?thesis by auto
  qed
qed

section \<open>The obstacle lists of a box\<close>

text \<open>
  With radii that are numbers: the two obstacle lists of every box reachable from
  \<^verbatim>\<open>Create\<close> have the same length and every stored radius is at least 1e-8.
\<close>

lemma AddObstacle_invariant:
  "obstacle_invariant env \<Longrightarrow> obstacle_invariant (AddObstacle env p r)"
  by (simp add: obstacle_invariant_def AddObstacle_def kSmallNumber_def)

lemma apply_operation_invariant:
  "obstacle_invariant env \<Longrightarrow> obstacle_invariant (apply_operation env op)"
  by (cases op) (simp_all add: AddObstacle_invariant)

lemma reachable_invariant: "reachable env \<Longrightarrow> obstacle_invariant env"
proof (induction rule: reachable.induct)
  case (created lo up)
  show ?case by (simp add: obstacle_invariant_def BallsInBox_Create_def)
next
  case (stepped env op)
  then show ?case by (simp add: apply_operation_invariant)
qed

lemma stored_radius_Number: "stored_radius (Number r) = Number (max r kSmallNumber)"
  by (simp add: stored_radius_def std_max_def max_def)

text \<open>
  C10. A NaN radius is stored as it is: \<^verbatim>\<open>std::max(NaN, 1e-8)\<close> is NaN, so the stored
  radius is not at least 1e-8. (For a radius that is a number the stored radius is
  \<open>max r 1e-8\<close>, and the lemmas above give the invariant for the boxes reached with such
  radii.)
\<close>

theorem AddObstacle_NaN_radius_unclamped:
  "stored_radius NaN = NaN \<and> \<not> less_eq_double (Number (1 / 10 ^ 8)) (stored_radius NaN)"
  by (simp add: stored_radius_def std_max_def)

section \<open>Sensing\<close>

lemma SenseObstacles_fold:
  assumes "length (radii env) = length (points env)"
  shows "n \<le> length (points env) \<Longrightarrow>
    fold (SenseObstacles_step env position sensor_radius) [0..<n] (ps, rs) =
      (ps @ map fst (filter (\<lambda>(p, r). norm_v (vminus position p) \<le> r + sensor_radius)
                  (take n (zip (points env) (radii env)))),
       rs @ map snd (filter (\<lambda>(p, r). norm_v (vminus position p) \<le> r + sensor_radius)
                  (take n (zip (points env) (radii env)))))"
proof (induction n)
  case 0
  show ?case by simp
next
  case (Suc n)
  then have n: "n < length (zip (points env) (radii env))" using assms by simp
  show ?case using Suc assms
    by (simp add: take_Suc_conv_app_nth [OF n] SenseObstacles_step_def)
qed

text \<open>
  C8. On a box whose two obstacle lists have the same length, \<^verbatim>\<open>SenseObstacles\<close> returns,
  in their stored order and with their stored centres and radii, exactly the obstacles
  whose distance from the query position is at most their radius plus the sensor radius:
  none farther is returned, none within is left out; the flag says whether there is one.
\<close>

theorem SenseObstacles_exact:
  assumes "length (radii env) = length (points env)"
  shows "SenseObstacles env position sensor_radius =
     (let sensed = filter (\<lambda>(p, r). norm_v (vminus position p) \<le> r + sensor_radius)
                     (zip (points env) (radii env))
      in (sensed \<noteq> [], map fst sensed, map snd sensed))"
  using SenseObstacles_fold [OF assms, of "length (points env)" position sensor_radius "[]" "[]"] assms
  by (simp add: SenseObstacles_def Let_def)

text \<open>
  Three obstacles of radius 1 and a sensor of radius 2 at the origin: the obstacle at
  distance 1 is inside, the one at distance 3 is on the boundary and is returned, the
  one at distance 5 is outside.
\<close>

theorem SenseObstacles_exact_witness:
  "SenseObstacles
     \<lparr> lower = Vector3d 0 0 0, upper = Vector3d 10 10 10,
       points = [Vector3d 1 0 0, Vector3d 3 0 0, Vector3d 5 0 0], radii = [1, 1, 1] \<rparr>
     (Vector3d 0 0 0) 2
   = (True, [Vector3d 1 0 0, Vector3d 3 0 0], [1, 1])"
  using SenseObstacles_exact [of "\<lparr> lower = Vector3d 0 0 0, upper = Vector3d 10 10 10,
       points = [Vector3d 1 0 0, Vector3d 3 0 0, Vector3d 5 0 0], radii = [1, 1, 1] \<rparr>"
       "Vector3d 0 0 0" 2]
  by (simp add: norm_v_le_iff)

section \<open>The value\<close>

lemma Value_loop_Finite:
  assumes "\<forall>dm<3. coeff (a_max vf) dm \<noteq> coeff (d_a vf) dm"
  shows "Value_loop vf state =
     Finite (max (max (max (V_A vf state 0) (V_B vf state 0)) (max (V_A vf state 1) (V_B vf state 1)))
                 (max (V_A vf state 2) (V_B vf state 2)))"
  by (simp add: Value_loop_def p_dim_upt Value_step_def)

lemma Value_eq:
  assumes "\<forall>dm<3. coeff (a_max vf) dm \<noteq> coeff (d_a vf) dm"
  shows "Value vf state =
     max (max (max (V_A vf state 0) (V_B vf state 0)) (max (V_A vf state 1) (V_B vf state 1)))
         (max (V_A vf state 2) (V_B vf state 2))"
  by (simp add: Value_def Value_loop_Finite [OF assms])

lemma less_3_cases: "(dm::nat) < 3 \<longleftrightarrow> dm = 0 \<or> dm = 1 \<or> dm = 2"
  by auto

lemma all_less_3: "(\<forall>dm<3::nat. P dm) \<longleftrightarrow> P 0 \<and> P 1 \<and> P 2"
  by (auto simp: less_3_cases)

lemma ex_less_3: "(\<exists>dm<3::nat. P dm) \<longleftrightarrow> P 0 \<or> P 1 \<or> P 2"
  by (auto simp: less_3_cases)

text \<open>
  C4. For a value function with \<open>a_max \<noteq> d_a\<close> in every axis and a 6-dimensional
  state, the surfaces of each axis are the two stated parabolic
  expressions in that axis's position \<open>state ! dm\<close> and velocity \<open>state ! (3 + dm)\<close>, and
  \<^verbatim>\<open>Value\<close> is the maximum over the three axes of \<open>max V_A V_B\<close>: every axis's value is
  below it and one axis attains it (the least safe axis dominates). The value is negative
  exactly where both surfaces are negative in every axis, that is strictly between the
  two parabolas, and non-negative as soon as one surface of one axis is.
\<close>

theorem Value_max_over_axes:
  assumes "length state = 6"
    and nz: "\<forall>dm<3. coeff (a_max vf) dm \<noteq> coeff (d_a vf) dm"
  shows "(\<forall>dm<3.
            V_A vf state dm =
              - (state ! dm)
              + (0.5 * (state ! (3 + dm) - coeff (max_planner_speed vf) dm)\<^sup>2
                 - (coeff (max_planner_speed vf) dm)\<^sup>2 * (1 + coeff (expand vf) dm))
                / (coeff (a_max vf) dm - coeff (d_a vf) dm) \<and>
            V_B vf state dm =
              state ! dm
              - (- 0.5 * (state ! (3 + dm) + coeff (max_planner_speed vf) dm)\<^sup>2
                 + (coeff (max_planner_speed vf) dm)\<^sup>2 * (1 + coeff (expand vf) dm))
                / (coeff (a_max vf) dm - coeff (d_a vf) dm)) \<and>
         Value vf state = Max ((\<lambda>dm. max (V_A vf state dm) (V_B vf state dm)) ` {0, 1, 2}) \<and>
         (\<forall>dm<3. max (V_A vf state dm) (V_B vf state dm) \<le> Value vf state) \<and>
         (\<exists>dm<3. Value vf state = max (V_A vf state dm) (V_B vf state dm)) \<and>
         (Value vf state < 0 \<longleftrightarrow> (\<forall>dm<3. V_A vf state dm < 0 \<and> V_B vf state dm < 0)) \<and>
         (0 \<le> Value vf state \<longleftrightarrow> (\<exists>dm<3. 0 \<le> V_A vf state dm \<or> 0 \<le> V_B vf state dm))"
proof -
  have f: "\<forall>dm<3.
            V_A vf state dm =
              - (state ! dm)
              + (0.5 * (state ! (3 + dm) - coeff (max_planner_speed vf) dm)\<^sup>2
                 - (coeff (max_planner_speed vf) dm)\<^sup>2 * (1 + coeff (expand vf) dm))
                / (coeff (a_max vf) dm - coeff (d_a vf) dm) \<and>
            V_B vf state dm =
              state ! dm
              - (- 0.5 * (state ! (3 + dm) + coeff (max_planner_speed vf) dm)\<^sup>2
                 + (coeff (max_planner_speed vf) dm)\<^sup>2 * (1 + coeff (expand vf) dm))
                / (coeff (a_max vf) dm - coeff (d_a vf) dm)"
    by (simp add: V_A_def V_B_def p_dim_def power2_eq_square Let_def)
  have m: "Value vf state = Max ((\<lambda>dm. max (V_A vf state dm) (V_B vf state dm)) ` {0, 1, 2})"
    by (simp add: Value_eq [OF nz] max.assoc)
  have d: "\<forall>dm<3. max (V_A vf state dm) (V_B vf state dm) \<le> Value vf state"
    unfolding all_less_3 Value_eq [OF nz] by (simp add: max_def)
  have e: "\<exists>dm<3. Value vf state = max (V_A vf state dm) (V_B vf state dm)"
    unfolding ex_less_3 Value_eq [OF nz] by (simp add: max_def)
  have n: "Value vf state < 0 \<longleftrightarrow> (\<forall>dm<3. V_A vf state dm < 0 \<and> V_B vf state dm < 0)"
    unfolding all_less_3 Value_eq [OF nz] by auto
  have p: "0 \<le> Value vf state \<longleftrightarrow> (\<exists>dm<3. 0 \<le> V_A vf state dm \<or> 0 \<le> V_B vf state dm)"
    unfolding ex_less_3 Value_eq [OF nz] by (auto simp: le_max_iff_disj)
  from f m d e n p show ?thesis by blast
qed

lemma ZeroX_6: "ZeroX 6 = [0, 0, 0, 0, 0, 0]"
  by (simp add: ZeroX_def numeral_eq_Suc)

lemma Value_example_zero:
  "Value \<lparr> u_max = Vector3d 1 1 1, u_min = Vector3d (-1) (-1) (-1),
           d_v = Vector3d 0 0 0, d_a = Vector3d 1 1 1,
           a_max = Vector3d 2 2 2, u2a = Vector3d 2 2 2,
           max_planner_speed = Vector3d 1 1 1, expand = Vector3d 0 0 0 \<rparr> [0, 0, 0, 0, 0, 0] = - 1 / 2"
  by (simp add: Value_eq all_less_3 V_A_def V_B_def p_dim_def)

lemma Value_example_one:
  "Value \<lparr> u_max = Vector3d 1 1 1, u_min = Vector3d (-1) (-1) (-1),
           d_v = Vector3d 0 0 0, d_a = Vector3d 1 1 1,
           a_max = Vector3d 2 2 2, u2a = Vector3d 2 2 2,
           max_planner_speed = Vector3d 1 1 1, expand = Vector3d 0 0 0 \<rparr> [1, 0, 0, 0, 0, 0] = 1 / 2"
  by (simp add: Value_eq all_less_3 V_A_def V_B_def p_dim_def)

lemma Priority_example_zero:
  "Priority \<lparr> u_max = Vector3d 1 1 1, u_min = Vector3d (-1) (-1) (-1),
           d_v = Vector3d 0 0 0, d_a = Vector3d 1 1 1,
           a_max = Vector3d 2 2 2, u2a = Vector3d 2 2 2,
           max_planner_speed = Vector3d 1 1 1, expand = Vector3d 0 0 0 \<rparr> [0, 0, 0, 0, 0, 0] = 0"
  by (simp add: Priority_def Let_def ZeroX_6 Value_example_zero)

lemma Priority_example_one:
  "Priority \<lparr> u_max = Vector3d 1 1 1, u_min = Vector3d (-1) (-1) (-1),
           d_v = Vector3d 0 0 0, d_a = Vector3d 1 1 1,
           a_max = Vector3d 2 2 2, u2a = Vector3d 2 2 2,
           max_planner_speed = Vector3d 1 1 1, expand = Vector3d 0 0 0 \<rparr> [1, 0, 0, 0, 0, 0] = 1"
  by (simp add: Priority_def Let_def ZeroX_6 Value_example_zero Value_example_one)

theorem Value_max_over_axes_witness:
  "length [1, 0, 0, 0, 0, 0::real] = 6 \<and>
   Value \<lparr> u_max = Vector3d 1 1 1, u_min = Vector3d (-1) (-1) (-1),
           d_v = Vector3d 0 0 0, d_a = Vector3d 1 1 1,
           a_max = Vector3d 2 2 2, u2a = Vector3d 2 2 2,
           max_planner_speed = Vector3d 1 1 1, expand = Vector3d 0 0 0 \<rparr> [1, 0, 0, 0, 0, 0] = 1 / 2 \<and>
   V_B \<lparr> u_max = Vector3d 1 1 1, u_min = Vector3d (-1) (-1) (-1),
           d_v = Vector3d 0 0 0, d_a = Vector3d 1 1 1,
           a_max = Vector3d 2 2 2, u2a = Vector3d 2 2 2,
           max_planner_speed = Vector3d 1 1 1, expand = Vector3d 0 0 0 \<rparr> [1, 0, 0, 0, 0, 0] 0 = 1 / 2"
  using Value_max_over_axes [of "[1, 0, 0, 0, 0, 0]" "\<lparr> u_max = Vector3d 1 1 1, u_min = Vector3d (-1) (-1) (-1),
           d_v = Vector3d 0 0 0, d_a = Vector3d 1 1 1,
           a_max = Vector3d 2 2 2, u2a = Vector3d 2 2 2,
           max_planner_speed = Vector3d 1 1 1, expand = Vector3d 0 0 0 \<rparr>"]
  by (simp add: all_less_3 ex_less_3 max_def)

section \<open>The optimal control\<close>

lemma coeff_set_coeff_same: "dm < 3 \<Longrightarrow> coeff (set_coeff u dm y) dm = y"
  by (cases u) (auto simp: less_3_cases)

lemma coeff_set_coeff_other: "dm < 3 \<Longrightarrow> j < 3 \<Longrightarrow> j \<noteq> dm \<Longrightarrow> coeff (set_coeff u dm y) j = coeff u j"
  by (cases u) (auto simp: less_3_cases)

lemma to_VectorXd_nth: "dm < 3 \<Longrightarrow> to_VectorXd u ! dm = coeff u dm"
  by (cases u) (auto simp: less_3_cases)

lemma length_to_VectorXd: "length (to_VectorXd u) = 3"
  by (cases u) simp

lemma OptimalControl_step_eq:
  "OptimalControl_step vf state dm u_opt =
     set_coeff u_opt dm
       (if state ! dm \<ge> 0
        then (if V_A vf state dm < 0
              then (if coeff (u2a vf) dm > 0 then coeff (u_min vf) dm else coeff (u_max vf) dm)
              else (if coeff (u2a vf) dm > 0 then coeff (u_max vf) dm else coeff (u_min vf) dm))
        else (if V_B vf state dm < 0
              then (if coeff (u2a vf) dm > 0 then coeff (u_max vf) dm else coeff (u_min vf) dm)
              else (if coeff (u2a vf) dm > 0 then coeff (u_min vf) dm else coeff (u_max vf) dm)))"
  unfolding OptimalControl_step_def Let_def by (simp only: if_False) simp

lemma fold_set_coeff:
  assumes "dm < 3"
  shows "coeff (fold (\<lambda>k u. set_coeff u k (f k)) [0, 1, 2] u0) dm = f dm"
  using assms unfolding less_3_cases
  by (auto simp: coeff_set_coeff_same coeff_set_coeff_other)

lemma OptimalControl_nth:
  assumes "dm < 3"
  shows "OptimalControl vf state ! dm =
       (if state ! dm \<ge> 0
        then (if V_A vf state dm < 0
              then (if coeff (u2a vf) dm > 0 then coeff (u_min vf) dm else coeff (u_max vf) dm)
              else (if coeff (u2a vf) dm > 0 then coeff (u_max vf) dm else coeff (u_min vf) dm))
        else (if V_B vf state dm < 0
              then (if coeff (u2a vf) dm > 0 then coeff (u_max vf) dm else coeff (u_min vf) dm)
              else (if coeff (u2a vf) dm > 0 then coeff (u_min vf) dm else coeff (u_max vf) dm)))"
proof -
  have "OptimalControl_step vf state = (\<lambda>k u. set_coeff u k
       (if state ! k \<ge> 0
        then (if V_A vf state k < 0
              then (if coeff (u2a vf) k > 0 then coeff (u_min vf) k else coeff (u_max vf) k)
              else (if coeff (u2a vf) k > 0 then coeff (u_max vf) k else coeff (u_min vf) k))
        else (if V_B vf state k < 0
              then (if coeff (u2a vf) k > 0 then coeff (u_max vf) k else coeff (u_min vf) k)
              else (if coeff (u2a vf) k > 0 then coeff (u_min vf) k else coeff (u_max vf) k))))"
    by (intro ext) (rule OptimalControl_step_eq)
  then show ?thesis
    unfolding OptimalControl_def p_dim_upt to_VectorXd_nth [OF assms]
    by (simp only: fold_set_coeff [OF assms])
qed

text \<open>
  C2. For a 6-dimensional state and each spatial axis, \<^verbatim>\<open>OptimalControl\<close> returns a
  3-vector whose entry is: at a position \<open>\<ge> 0\<close>, the decelerating extreme when the
  acceleration surface \<open>V_A\<close> is negative and the accelerating extreme otherwise; at a
  position \<open>< 0\<close>, the accelerating extreme when the braking surface \<open>V_B\<close> is negative
  and the decelerating extreme otherwise. The entry is always \<open>u_min\<close> or \<open>u_max\<close> of that
  axis, and the disabled inside rule has no part in it.
\<close>

theorem OptimalControl_rule:
  assumes "length state = 6" and "dm < 3"
  shows "length (OptimalControl vf state) = 3 \<and>
     OptimalControl vf state ! dm =
       (let u_acc = (if coeff (u2a vf) dm > 0 then coeff (u_max vf) dm else coeff (u_min vf) dm);
            u_dec = (if coeff (u2a vf) dm > 0 then coeff (u_min vf) dm else coeff (u_max vf) dm)
        in if state ! dm \<ge> 0 then (if V_A vf state dm < 0 then u_dec else u_acc)
           else (if V_B vf state dm < 0 then u_acc else u_dec)) \<and>
     (OptimalControl vf state ! dm = coeff (u_min vf) dm \<or>
      OptimalControl vf state ! dm = coeff (u_max vf) dm)"
proof -
  have l: "length (OptimalControl vf state) = 3"
    by (simp add: OptimalControl_def length_to_VectorXd)
  have r: "OptimalControl vf state ! dm =
       (let u_acc = (if coeff (u2a vf) dm > 0 then coeff (u_max vf) dm else coeff (u_min vf) dm);
            u_dec = (if coeff (u2a vf) dm > 0 then coeff (u_min vf) dm else coeff (u_max vf) dm)
        in if state ! dm \<ge> 0 then (if V_A vf state dm < 0 then u_dec else u_acc)
           else (if V_B vf state dm < 0 then u_acc else u_dec))"
    unfolding OptimalControl_nth [OF assms(2)] Let_def by (rule refl)
  have "OptimalControl vf state ! dm = coeff (u_min vf) dm \<or>
      OptimalControl vf state ! dm = coeff (u_max vf) dm"
    unfolding OptimalControl_nth [OF assms(2)] by simp
  with l r show ?thesis by blast
qed

lemma V_A_zero_example:
  "V_A \<lparr> u_max = Vector3d 1 1 1, u_min = Vector3d (-1) (-1) (-1),
           d_v = Vector3d 0 0 0, d_a = Vector3d 1 1 1,
           a_max = Vector3d 2 2 2, u2a = Vector3d 2 2 2,
           max_planner_speed = Vector3d 1 1 1, expand = Vector3d 0 0 0 \<rparr> [0, 0, 0, 0, 0, 0] 0 = - 1 / 2"
  by (simp add: V_A_def p_dim_def)

text \<open>
  At the zero state of the example the position is \<open>\<ge> 0\<close> and \<open>V_A\<close> is negative: the
  source brakes (\<open>- 1\<close>) where the rule as worded accelerates (\<open>1\<close>).
\<close>

theorem OptimalControl_rule_counterexample:
  "[0, 0, 0, 0, 0, 0] ! 0 \<ge> (0::real) \<and>
   V_A \<lparr> u_max = Vector3d 1 1 1, u_min = Vector3d (-1) (-1) (-1),
           d_v = Vector3d 0 0 0, d_a = Vector3d 1 1 1,
           a_max = Vector3d 2 2 2, u2a = Vector3d 2 2 2,
           max_planner_speed = Vector3d 1 1 1, expand = Vector3d 0 0 0 \<rparr> [0, 0, 0, 0, 0, 0] 0 < 0 \<and>
   OptimalControl \<lparr> u_max = Vector3d 1 1 1, u_min = Vector3d (-1) (-1) (-1),
           d_v = Vector3d 0 0 0, d_a = Vector3d 1 1 1,
           a_max = Vector3d 2 2 2, u2a = Vector3d 2 2 2,
           max_planner_speed = Vector3d 1 1 1, expand = Vector3d 0 0 0 \<rparr> [0, 0, 0, 0, 0, 0] ! 0 = - 1 \<and>
   claimed_control \<lparr> u_max = Vector3d 1 1 1, u_min = Vector3d (-1) (-1) (-1),
           d_v = Vector3d 0 0 0, d_a = Vector3d 1 1 1,
           a_max = Vector3d 2 2 2, u2a = Vector3d 2 2 2,
           max_planner_speed = Vector3d 1 1 1, expand = Vector3d 0 0 0 \<rparr> [0, 0, 0, 0, 0, 0] 0 = 1"
  by (simp add: OptimalControl_nth claimed_control_def V_A_zero_example)

theorem OptimalControl_rule_witness:
  "length [0, 0, 0, 0, 0, 0::real] = 6 \<and> (0::nat) < 3 \<and>
   OptimalControl \<lparr> u_max = Vector3d 1 1 1, u_min = Vector3d (-1) (-1) (-1),
           d_v = Vector3d 0 0 0, d_a = Vector3d 1 1 1,
           a_max = Vector3d 2 2 2, u2a = Vector3d 2 2 2,
           max_planner_speed = Vector3d 1 1 1, expand = Vector3d 0 0 0 \<rparr> [0, 0, 0, 0, 0, 0] ! 0 = - 1"
  using OptimalControl_rule [of "[0, 0, 0, 0, 0, 0]" 0 "\<lparr> u_max = Vector3d 1 1 1, u_min = Vector3d (-1) (-1) (-1),
           d_v = Vector3d 0 0 0, d_a = Vector3d 1 1 1,
           a_max = Vector3d 2 2 2, u2a = Vector3d 2 2 2,
           max_planner_speed = Vector3d 1 1 1, expand = Vector3d 0 0 0 \<rparr>"]
  by (simp add: V_A_zero_example)

section \<open>The priority\<close>

lemma Priority_bounds: "0 \<le> Priority vf state \<and> Priority vf state \<le> 1"
  by (simp add: Priority_def Let_def)

lemma clamp_mono: "(q::real) \<le> q' \<Longrightarrow> min (max 0 q) 1 \<le> min (max 0 q') 1"
  by (simp add: min_def max_def)

lemma Priority_unfold:
  "Value vf (ZeroX 6) \<noteq> 0 \<Longrightarrow>
   Priority vf s = 1 - min (max 0 ((Value vf s - 0.05 * Value vf (ZeroX 6)) /
                                  (0.20 * Value vf (ZeroX 6) - 0.05 * Value vf (ZeroX 6)))) 1"
  by (simp add: Priority_def Let_def)

lemma Priority_mono_neg:
  assumes "Value vf (ZeroX 6) < 0" and "Value vf s1 \<le> Value vf s2"
  shows "Priority vf s1 \<le> Priority vf s2"
proof -
  let ?S = "Value vf (ZeroX 6)"
  have nz: "?S \<noteq> 0" using assms(1) by simp
  have den: "0.20 * ?S - 0.05 * ?S < 0" using assms(1) by simp
  have "(Value vf s2 - 0.05 * ?S) / (0.20 * ?S - 0.05 * ?S)
        \<le> (Value vf s1 - 0.05 * ?S) / (0.20 * ?S - 0.05 * ?S)"
    using den assms(2) by (intro divide_right_mono_neg) simp_all
  from clamp_mono [OF this] show ?thesis
    unfolding Priority_unfold [OF nz] by linarith
qed

lemma Priority_mono_nonneg:
  assumes "0 \<le> Value vf (ZeroX 6)" and "Value vf s1 \<le> Value vf s2"
  shows "Priority vf s2 \<le> Priority vf s1"
proof (cases "Value vf (ZeroX 6) = 0")
  case True
  then show ?thesis using assms(2) by (simp add: Priority_def Let_def)
next
  case False
  let ?S = "Value vf (ZeroX 6)"
  have den: "0 < 0.20 * ?S - 0.05 * ?S" using assms(1) False by simp
  have "(Value vf s1 - 0.05 * ?S) / (0.20 * ?S - 0.05 * ?S)
        \<le> (Value vf s2 - 0.05 * ?S) / (0.20 * ?S - 0.05 * ?S)"
    using den assms(2) by (intro divide_right_mono) simp_all
  from clamp_mono [OF this] show ?thesis
    unfolding Priority_unfold [OF False] by linarith
qed

lemma V_A_zero:
  assumes "dm < 3"
  shows "V_A vf (ZeroX 6) dm =
       - ((coeff (max_planner_speed vf) dm)\<^sup>2 * (1 / 2 + coeff (expand vf) dm))
                 / (coeff (a_max vf) dm - coeff (d_a vf) dm)"
proof -
  have z: "ZeroX 6 ! dm = 0" "ZeroX 6 ! (p_dim + dm) = 0"
    using assms by (simp_all add: ZeroX_def p_dim_def)
  have n: "0.5 * (0 - r) * (0 - r) - r * r * (1.0 + e) = - (r\<^sup>2 * (1 / 2 + e))" for r e :: real
    by (simp add: power2_eq_square algebra_simps)
  show ?thesis unfolding V_A_def Let_def z n by simp
qed

lemma V_B_zero:
  assumes "dm < 3"
  shows "V_B vf (ZeroX 6) dm =
       - ((coeff (max_planner_speed vf) dm)\<^sup>2 * (1 / 2 + coeff (expand vf) dm))
                 / (coeff (a_max vf) dm - coeff (d_a vf) dm)"
proof -
  have z: "ZeroX 6 ! dm = 0" "ZeroX 6 ! (p_dim + dm) = 0"
    using assms by (simp_all add: ZeroX_def p_dim_def)
  have n: "- 0.5 * (0 + r) * (0 + r) + r * r * (1.0 + e) = r\<^sup>2 * (1 / 2 + e)" for r e :: real
    by (simp add: power2_eq_square algebra_simps)
  show ?thesis unfolding V_B_def Let_def z n by simp
qed

lemma Value_zero_negative:
  assumes "\<forall>dm<3. coeff (d_a vf) dm < coeff (a_max vf) dm \<and> coeff (max_planner_speed vf) dm \<noteq> 0 \<and>
                   - 1 / 2 < coeff (expand vf) dm"
  shows "Value vf (ZeroX 6) < 0"
proof -
  have "V_A vf (ZeroX 6) dm < 0 \<and> V_B vf (ZeroX 6) dm < 0" if "dm < 3" for dm
  proof -
    from assms that have a: "0 < coeff (a_max vf) dm - coeff (d_a vf) dm"
      and r: "0 < (coeff (max_planner_speed vf) dm)\<^sup>2" and e: "0 < 1 / 2 + coeff (expand vf) dm"
      by auto
    have "0 < (coeff (max_planner_speed vf) dm)\<^sup>2 * (1 / 2 + coeff (expand vf) dm)
                / (coeff (a_max vf) dm - coeff (d_a vf) dm)"
      using a r e by (intro divide_pos_pos mult_pos_pos)
    then show ?thesis unfolding V_A_zero [OF that] V_B_zero [OF that] by simp
  qed
  moreover from assms have "\<forall>dm<3. coeff (a_max vf) dm \<noteq> coeff (d_a vf) dm" by auto
  ultimately show ?thesis by (simp add: Value_eq)
qed

text \<open>
  C6. \<^verbatim>\<open>Priority\<close> lies in the closed interval from 0 to 1 at every state. Its direction
  follows the sign of the value at the zero state: where that value is negative,
  \<^verbatim>\<open>Priority\<close> is non-decreasing in \<^verbatim>\<open>Value\<close>; only where it is non-negative is
  \<^verbatim>\<open>Priority\<close> non-increasing. The value at the zero state is negative whenever every
  axis has \<open>a_max > d_a\<close>, a nonzero planner speed and \<open>expand > - 1/2\<close>.
\<close>

theorem Priority_bounded_monotone:
  "0 \<le> Priority vf s \<and> Priority vf s \<le> 1 \<and>
   (Value vf (ZeroX 6) < 0 \<longrightarrow> Value vf s1 \<le> Value vf s2 \<longrightarrow> Priority vf s1 \<le> Priority vf s2) \<and>
   (0 \<le> Value vf (ZeroX 6) \<longrightarrow> Value vf s1 \<le> Value vf s2 \<longrightarrow> Priority vf s2 \<le> Priority vf s1) \<and>
   ((\<forall>dm<3. coeff (d_a vf) dm < coeff (a_max vf) dm \<and> coeff (max_planner_speed vf) dm \<noteq> 0 \<and>
             - 1 / 2 < coeff (expand vf) dm) \<longrightarrow> Value vf (ZeroX 6) < 0)"
  using Priority_bounds [of vf s] Priority_mono_neg [of vf s1 s2] Priority_mono_nonneg [of vf s1 s2]
    Value_zero_negative [of vf]
  by blast

text \<open>
  With planner speed 1, \<open>a_max - d_a = 1\<close> and no expansion, the zero state has value
  \<open>- 1/2\<close> and priority 0, the state one unit off in the first axis has value \<open>1/2\<close> and
  priority 1: the value grows and the priority grows with it.
\<close>

theorem Priority_monotone_counterexample:
  "Value \<lparr> u_max = Vector3d 1 1 1, u_min = Vector3d (-1) (-1) (-1),
           d_v = Vector3d 0 0 0, d_a = Vector3d 1 1 1,
           a_max = Vector3d 2 2 2, u2a = Vector3d 2 2 2,
           max_planner_speed = Vector3d 1 1 1, expand = Vector3d 0 0 0 \<rparr> [0, 0, 0, 0, 0, 0]
   \<le> Value \<lparr> u_max = Vector3d 1 1 1, u_min = Vector3d (-1) (-1) (-1),
           d_v = Vector3d 0 0 0, d_a = Vector3d 1 1 1,
           a_max = Vector3d 2 2 2, u2a = Vector3d 2 2 2,
           max_planner_speed = Vector3d 1 1 1, expand = Vector3d 0 0 0 \<rparr> [1, 0, 0, 0, 0, 0] \<and>
   \<not> Priority \<lparr> u_max = Vector3d 1 1 1, u_min = Vector3d (-1) (-1) (-1),
           d_v = Vector3d 0 0 0, d_a = Vector3d 1 1 1,
           a_max = Vector3d 2 2 2, u2a = Vector3d 2 2 2,
           max_planner_speed = Vector3d 1 1 1, expand = Vector3d 0 0 0 \<rparr> [0, 0, 0, 0, 0, 0]
   \<ge> Priority \<lparr> u_max = Vector3d 1 1 1, u_min = Vector3d (-1) (-1) (-1),
           d_v = Vector3d 0 0 0, d_a = Vector3d 1 1 1,
           a_max = Vector3d 2 2 2, u2a = Vector3d 2 2 2,
           max_planner_speed = Vector3d 1 1 1, expand = Vector3d 0 0 0 \<rparr> [1, 0, 0, 0, 0, 0]"
  by (simp add: Value_example_zero Value_example_one Priority_example_zero Priority_example_one)

theorem Priority_bounded_monotone_witness:
  "Value \<lparr> u_max = Vector3d 1 1 1, u_min = Vector3d (-1) (-1) (-1),
           d_v = Vector3d 0 0 0, d_a = Vector3d 1 1 1,
           a_max = Vector3d 2 2 2, u2a = Vector3d 2 2 2,
           max_planner_speed = Vector3d 1 1 1, expand = Vector3d 0 0 0 \<rparr> (ZeroX 6) < 0 \<and>
   Priority \<lparr> u_max = Vector3d 1 1 1, u_min = Vector3d (-1) (-1) (-1),
           d_v = Vector3d 0 0 0, d_a = Vector3d 1 1 1,
           a_max = Vector3d 2 2 2, u2a = Vector3d 2 2 2,
           max_planner_speed = Vector3d 1 1 1, expand = Vector3d 0 0 0 \<rparr> [0, 0, 0, 0, 0, 0]
   \<le> Priority \<lparr> u_max = Vector3d 1 1 1, u_min = Vector3d (-1) (-1) (-1),
           d_v = Vector3d 0 0 0, d_a = Vector3d 1 1 1,
           a_max = Vector3d 2 2 2, u2a = Vector3d 2 2 2,
           max_planner_speed = Vector3d 1 1 1, expand = Vector3d 0 0 0 \<rparr> [1, 0, 0, 0, 0, 0]"
  using Priority_bounded_monotone [of "\<lparr> u_max = Vector3d 1 1 1, u_min = Vector3d (-1) (-1) (-1),
           d_v = Vector3d 0 0 0, d_a = Vector3d 1 1 1,
           a_max = Vector3d 2 2 2, u2a = Vector3d 2 2 2,
           max_planner_speed = Vector3d 1 1 1, expand = Vector3d 0 0 0 \<rparr>" "[0, 0, 0, 0, 0, 0]"
           "[0, 0, 0, 0, 0, 0]" "[1, 0, 0, 0, 0, 0]"]
  by (simp add: ZeroX_6 Value_example_zero Value_example_one)

section \<open>Obstacle membership\<close>

lemma IsObstacle_loop_iff:
  "IsObstacle_loop env q r' ixs \<longleftrightarrow>
     (\<exists>ii\<in>set ixs. norm_v (vminus q (points env ! ii)) < 1 / 10 ^ 8 \<and>
                     \<bar>r' - radii env ! ii\<bar> < 1 / 10 ^ 8)"
  by (induction ixs) auto

lemma IsObstacle_iff:
  "IsObstacle env q r' \<longleftrightarrow>
     (\<exists>ii<length (points env). norm_v (vminus q (points env ! ii)) < 1 / 10 ^ 8 \<and>
                     \<bar>r' - radii env ! ii\<bar> < 1 / 10 ^ 8)"
  unfolding IsObstacle_def IsObstacle_loop_iff by auto

text \<open>
  C9. A zero radius: \<^verbatim>\<open>AddObstacle\<close> stores 1e-8, whose distance from the queried radius 0
  is 1e-8 and so not below the strict tolerance; \<^verbatim>\<open>IsObstacle(p, 0)\<close> is false right after
  \<^verbatim>\<open>AddObstacle(p, 0)\<close> on the empty box. The sensor callback, which inserts an obstacle
  only when \<^verbatim>\<open>IsObstacle\<close> does not know it, therefore inserts the same zero-radius
  obstacle at every event, where an obstacle of radius 1 is inserted once.
\<close>

theorem AddObstacle_IsObstacle_zero_radius:
  "\<not> IsObstacle (AddObstacle (BallsInBox_Create (Vector3d 0 0 0) (Vector3d 10 10 10)) (Vector3d 5 5 5) 0)
       (Vector3d 5 5 5) 0 \<and>
   points (SensorCallback
             (SensorCallback (BallsInBox_Create (Vector3d 0 0 0) (Vector3d 10 10 10)) (Vector3d 5 5 5) 0)
             (Vector3d 5 5 5) 0) = [Vector3d 5 5 5, Vector3d 5 5 5] \<and>
   points (SensorCallback
             (SensorCallback (BallsInBox_Create (Vector3d 0 0 0) (Vector3d 10 10 10)) (Vector3d 5 5 5) 1)
             (Vector3d 5 5 5) 1) = [Vector3d 5 5 5]"
proof -
  let ?e = "BallsInBox_Create (Vector3d 0 0 0) (Vector3d 10 10 10)"
  let ?p = "Vector3d 5 5 5"
  have none: "\<not> IsObstacle ?e ?p r" for r
    by (simp add: IsObstacle_iff BallsInBox_Create_def)
  have zero: "\<not> IsObstacle (AddObstacle ?e ?p 0) ?p 0"
    by (simp add: IsObstacle_iff AddObstacle_def BallsInBox_Create_def kSmallNumber_def)
  have one: "IsObstacle (AddObstacle ?e ?p 1) ?p 1"
    by (simp add: IsObstacle_iff AddObstacle_def BallsInBox_Create_def kSmallNumber_def norm_v_def)
  have "points (SensorCallback (SensorCallback ?e ?p 0) ?p 0) = [?p, ?p]"
    using none [of 0] zero by (simp add: SensorCallback_def AddObstacle_def BallsInBox_Create_def)
  moreover have "points (SensorCallback (SensorCallback ?e ?p 1) ?p 1) = [?p]"
    using none [of 1] one by (simp add: SensorCallback_def) (simp add: AddObstacle_def BallsInBox_Create_def)
  ultimately show ?thesis using zero by simp
qed

section \<open>Validity of a position\<close>

lemma IsValid_bounds_iff:
  "IsValid_bounds env position incoming outgoing ixs \<longleftrightarrow>
     (\<forall>ii\<in>set ixs. coeff (lower env) ii + TrackingBound incoming ii \<le> coeff position ii \<and>
                     coeff position ii \<le> coeff (upper env) ii - TrackingBound incoming ii)"
  by (induction ixs) (auto simp: SwitchingTrackingBound_def Let_def)

lemma IsValid_obstacles_iff:
  "IsValid_obstacles env position incoming outgoing ixs \<longleftrightarrow>
     (\<forall>ii\<in>set ixs. radii env ! ii < norm_v (vminus position (points env ! ii)) \<and>
        radii env ! ii <
          norm_v (vminus (closest_corner position (points env ! ii) incoming outgoing) (points env ! ii)))"
  by (induction ixs) (auto simp: Let_def)

lemma IsValid_iff:
  assumes "\<forall>ii<3. coeff (a_max incoming) ii \<noteq> coeff (d_a incoming) ii"
  shows "IsValid env position incoming outgoing \<longleftrightarrow>
     (\<forall>ii<3. coeff (lower env) ii + TrackingBound incoming ii \<le> coeff position ii \<and>
              coeff position ii \<le> coeff (upper env) ii - TrackingBound incoming ii) \<and>
     (\<forall>i<length (points env). radii env ! i < norm_v (vminus position (points env ! i)) \<and>
        radii env ! i <
          norm_v (vminus (closest_corner position (points env ! i) incoming outgoing) (points env ! i)))"
  unfolding IsValid_def IsValid_bounds_iff IsValid_obstacles_iff by auto

lemma closest_corner_eq:
  "closest_corner position p incoming outgoing =
     Vector3d
       (if coeff position 0 - coeff p 0 > 0 then coeff position 0 - TrackingBound incoming 0
        else coeff position 0 + TrackingBound incoming 0)
       (if coeff position 1 - coeff p 1 > 0 then coeff position 1 - TrackingBound incoming 1
        else coeff position 1 + TrackingBound incoming 1)
       (if coeff position 2 - coeff p 2 > 0 then coeff position 2 - TrackingBound incoming 2
        else coeff position 2 + TrackingBound incoming 2)"
  by (simp add: closest_corner_def upt_3 corner_step_def SwitchingTrackingBound_def Zero3_def)

lemma closest_corner_coeff:
  "jj < 3 \<Longrightarrow> coeff (closest_corner position p incoming outgoing) jj =
     (if coeff position jj - coeff p jj > 0 then coeff position jj - TrackingBound incoming jj
      else coeff position jj + TrackingBound incoming jj)"
  unfolding closest_corner_eq less_3_cases by auto

lemma nearer_square:
  fixes x q b c :: real
  assumes "0 \<le> b" and "c = x - b \<or> c = x + b"
  shows "((if x - q > 0 then x - b else x + b) - q) * ((if x - q > 0 then x - b else x + b) - q)
         \<le> (c - q) * (c - q)"
proof -
  have "\<bar>(if x - q > 0 then x - b else x + b) - q\<bar> \<le> \<bar>c - q\<bar>"
    using assms by (auto simp: abs_if)
  then have "\<bar>(if x - q > 0 then x - b else x + b) - q\<bar> * \<bar>(if x - q > 0 then x - b else x + b) - q\<bar>
        \<le> \<bar>c - q\<bar> * \<bar>c - q\<bar>"
    by (intro mult_mono) simp_all
  then show ?thesis by (simp only: abs_mult_self_eq)
qed

lemma closest_corner_nearest:
  assumes b: "\<forall>jj<3. 0 \<le> TrackingBound incoming jj"
    and c: "\<forall>jj<3. coeff c jj = coeff position jj - TrackingBound incoming jj \<or>
                    coeff c jj = coeff position jj + TrackingBound incoming jj"
  shows "norm_v (vminus (closest_corner position p incoming outgoing) p) \<le> norm_v (vminus c p)"
proof -
  obtain c0 c1 c2 where cv: "c = Vector3d c0 c1 c2" by (cases c)
  obtain p0 p1 p2 where pv: "p = Vector3d p0 p1 p2" by (cases p)
  obtain x0 x1 x2 where xv: "position = Vector3d x0 x1 x2" by (cases position)
  from b have b0: "0 \<le> TrackingBound incoming 0" and b1: "0 \<le> TrackingBound incoming 1"
    and b2: "0 \<le> TrackingBound incoming 2" by (simp_all add: all_less_3)
  from c have c0: "c0 = x0 - TrackingBound incoming 0 \<or> c0 = x0 + TrackingBound incoming 0"
    and c1: "c1 = x1 - TrackingBound incoming 1 \<or> c1 = x1 + TrackingBound incoming 1"
    and c2: "c2 = x2 - TrackingBound incoming 2 \<or> c2 = x2 + TrackingBound incoming 2"
    by (simp_all add: all_less_3 cv xv)
  define k0 where "k0 = (if x0 - p0 > 0 then x0 - TrackingBound incoming 0 else x0 + TrackingBound incoming 0)"
  define k1 where "k1 = (if x1 - p1 > 0 then x1 - TrackingBound incoming 1 else x1 + TrackingBound incoming 1)"
  define k2 where "k2 = (if x2 - p2 > 0 then x2 - TrackingBound incoming 2 else x2 + TrackingBound incoming 2)"
  have k: "closest_corner position p incoming outgoing = Vector3d k0 k1 k2"
    unfolding closest_corner_eq pv xv k0_def k1_def k2_def by simp
  have "(k0 - p0) * (k0 - p0) \<le> (c0 - p0) * (c0 - p0)"
    unfolding k0_def by (rule nearer_square [OF b0 c0])
  moreover have "(k1 - p1) * (k1 - p1) \<le> (c1 - p1) * (c1 - p1)"
    unfolding k1_def by (rule nearer_square [OF b1 c1])
  moreover have "(k2 - p2) * (k2 - p2) \<le> (c2 - p2) * (c2 - p2)"
    unfolding k2_def by (rule nearer_square [OF b2 c2])
  ultimately have "squaredNorm (vminus (closest_corner position p incoming outgoing) p)
      \<le> squaredNorm (vminus c p)"
    by (subst k) (simp add: cv pv)
  then show ?thesis unfolding norm_v_def by simp
qed

lemma norm_v_gt_iff: "r < norm_v v \<longleftrightarrow> r < 0 \<or> r * r < squaredNorm v"
  using norm_v_le_iff [of v r] by auto

text \<open>
  C1. On a box whose obstacle lists have the same length, with one value function \<open>vf\<close> as
  incoming and outgoing, whose net authority \<open>a_max - d_a\<close> is nonzero and whose
  \<^verbatim>\<open>TrackingBound\<close> is non-negative in every axis: \<^verbatim>\<open>IsValid\<close> is false whenever a coordinate
  of the position is strictly nearer than the bound of that axis to the lower or upper
  face, and whenever it is beyond a face; it is false whenever the position, or the
  nearest corner of the tracking-bound box around it, is within an obstacle's radius of
  its centre; and it is true for every other position: one at least the bound away from
  every face (a coordinate exactly at the bound is accepted) that, like its nearest
  corner, is strictly farther than the radius from every centre. The corner the source
  tests moves each coordinate by the bound towards the centre, and no corner of the box
  is nearer to the centre. No comparison of the bound with an obstacle's diameter enters.
\<close>

theorem IsValid_characterisation:
  assumes len: "length (radii env) = length (points env)"
    and nz: "\<forall>ii<3. coeff (a_max vf) ii \<noteq> coeff (d_a vf) ii"
    and nn: "\<forall>ii<3. 0 \<le> TrackingBound vf ii"
  shows
    "(\<forall>ii<3. coeff position ii < coeff (lower env) ii + TrackingBound vf ii \<or>
              coeff position ii > coeff (upper env) ii - TrackingBound vf ii \<longrightarrow>
              \<not> IsValid env position vf vf) \<and>
     (\<forall>ii<3. coeff position ii < coeff (lower env) ii \<or> coeff position ii > coeff (upper env) ii \<longrightarrow>
              \<not> IsValid env position vf vf) \<and>
     (\<forall>i<length (points env).
         norm_v (vminus position (points env ! i)) \<le> radii env ! i \<or>
         norm_v (vminus (closest_corner position (points env ! i) vf vf) (points env ! i))
           \<le> radii env ! i \<longrightarrow>
         \<not> IsValid env position vf vf) \<and>
     (IsValid env position vf vf \<longleftrightarrow>
        (\<forall>ii<3. coeff (lower env) ii + TrackingBound vf ii \<le> coeff position ii \<and>
                 coeff position ii \<le> coeff (upper env) ii - TrackingBound vf ii) \<and>
        (\<forall>i<length (points env).
            radii env ! i < norm_v (vminus position (points env ! i)) \<and>
            radii env ! i < norm_v (vminus (closest_corner position (points env ! i) vf vf)
                                           (points env ! i)))) \<and>
     (\<forall>jj<3. coeff (closest_corner position p vf vf) jj =
        (if coeff position jj - coeff p jj > 0 then coeff position jj - TrackingBound vf jj
         else coeff position jj + TrackingBound vf jj)) \<and>
     ((\<forall>jj<3. coeff c jj = coeff position jj - TrackingBound vf jj \<or>
               coeff c jj = coeff position jj + TrackingBound vf jj) \<longrightarrow>
      norm_v (vminus (closest_corner position p vf vf) p) \<le> norm_v (vminus c p))"
proof -
  note iff = IsValid_iff [OF nz, of env position vf]
  have a: "\<forall>ii<3. coeff position ii < coeff (lower env) ii + TrackingBound vf ii \<or>
              coeff position ii > coeff (upper env) ii - TrackingBound vf ii \<longrightarrow>
              \<not> IsValid env position vf vf"
    unfolding iff by auto
  have o: "\<forall>ii<3. coeff position ii < coeff (lower env) ii \<or> coeff position ii > coeff (upper env) ii \<longrightarrow>
              \<not> IsValid env position vf vf"
  proof (intro allI impI)
    fix ii :: nat
    assume ii: "ii < 3"
      and out: "coeff position ii < coeff (lower env) ii \<or> coeff position ii > coeff (upper env) ii"
    from nn ii have "0 \<le> TrackingBound vf ii" by simp
    with out have "coeff position ii < coeff (lower env) ii + TrackingBound vf ii \<or>
              coeff position ii > coeff (upper env) ii - TrackingBound vf ii" by linarith
    with a ii show "\<not> IsValid env position vf vf" by blast
  qed
  have b: "\<forall>i<length (points env).
         norm_v (vminus position (points env ! i)) \<le> radii env ! i \<or>
         norm_v (vminus (closest_corner position (points env ! i) vf vf) (points env ! i))
           \<le> radii env ! i \<longrightarrow>
         \<not> IsValid env position vf vf"
    unfolding iff by auto
  have c: "\<forall>jj<3. coeff (closest_corner position p vf vf) jj =
        (if coeff position jj - coeff p jj > 0 then coeff position jj - TrackingBound vf jj
         else coeff position jj + TrackingBound vf jj)"
    by (simp add: closest_corner_coeff)
  have d: "(\<forall>jj<3. coeff c jj = coeff position jj - TrackingBound vf jj \<or>
               coeff c jj = coeff position jj + TrackingBound vf jj) \<longrightarrow>
      norm_v (vminus (closest_corner position p vf vf) p) \<le> norm_v (vminus c p)"
    using closest_corner_nearest [OF nn, of c position p vf] by blast
  from a o b iff c d show ?thesis by blast
qed

text \<open>
  The box from 0 to 10 without obstacles and a tracking bound of exactly 1 (planner speed
  1, \<open>a_max - d_a = 1/2\<close>): the position \<open>(1, 5, 5)\<close> is at distance 1 from the face
  \<open>x = 0\<close>, within the bound, and is valid.
\<close>

theorem IsValid_face_boundary_counterexample:
  "TrackingBound \<lparr> u_max = Vector3d 1 1 1, u_min = Vector3d (-1) (-1) (-1),
           d_v = Vector3d 0 0 0, d_a = Vector3d 1 1 1,
           a_max = Vector3d (3 / 2) (3 / 2) (3 / 2), u2a = Vector3d (3 / 2) (3 / 2) (3 / 2),
           max_planner_speed = Vector3d 1 1 1, expand = Vector3d 0 0 0 \<rparr> 0 = 1 \<and>
   \<bar>coeff (Vector3d 1 5 5) 0 - coeff (lower (BallsInBox_Create (Vector3d 0 0 0) (Vector3d 10 10 10))) 0\<bar>
     \<le> TrackingBound \<lparr> u_max = Vector3d 1 1 1, u_min = Vector3d (-1) (-1) (-1),
           d_v = Vector3d 0 0 0, d_a = Vector3d 1 1 1,
           a_max = Vector3d (3 / 2) (3 / 2) (3 / 2), u2a = Vector3d (3 / 2) (3 / 2) (3 / 2),
           max_planner_speed = Vector3d 1 1 1, expand = Vector3d 0 0 0 \<rparr> 0 \<and>
   IsValid (BallsInBox_Create (Vector3d 0 0 0) (Vector3d 10 10 10)) (Vector3d 1 5 5)
      \<lparr> u_max = Vector3d 1 1 1, u_min = Vector3d (-1) (-1) (-1),
           d_v = Vector3d 0 0 0, d_a = Vector3d 1 1 1,
           a_max = Vector3d (3 / 2) (3 / 2) (3 / 2), u2a = Vector3d (3 / 2) (3 / 2) (3 / 2),
           max_planner_speed = Vector3d 1 1 1, expand = Vector3d 0 0 0 \<rparr>
      \<lparr> u_max = Vector3d 1 1 1, u_min = Vector3d (-1) (-1) (-1),
           d_v = Vector3d 0 0 0, d_a = Vector3d 1 1 1,
           a_max = Vector3d (3 / 2) (3 / 2) (3 / 2), u2a = Vector3d (3 / 2) (3 / 2) (3 / 2),
           max_planner_speed = Vector3d 1 1 1, expand = Vector3d 0 0 0 \<rparr>"
  by (simp add: IsValid_iff all_less_3 TrackingBound_def BallsInBox_Create_def)

text \<open>
  The specification's example: the box from 0 to 10, one obstacle of radius 1 at
  \<open>(5, 5, 5)\<close>, a tracking bound of \<open>1/5\<close>; \<open>(1, 1, 1)\<close> is valid, \<open>(5, 5, 5)\<close> is not.
\<close>

lemma TrackingBound_fifth:
  "dm < 3 \<Longrightarrow> TrackingBound \<lparr> u_max = Vector3d 1 1 1, u_min = Vector3d (-1) (-1) (-1),
           d_v = Vector3d 0 0 0, d_a = Vector3d 1 1 1,
           a_max = Vector3d (7 / 2) (7 / 2) (7 / 2), u2a = Vector3d (7 / 2) (7 / 2) (7 / 2),
           max_planner_speed = Vector3d 1 1 1, expand = Vector3d 0 0 0 \<rparr> dm = 1 / 5"
  unfolding less_3_cases by (auto simp: TrackingBound_def)

theorem IsValid_characterisation_witness:
  "IsValid \<lparr> lower = Vector3d 0 0 0, upper = Vector3d 10 10 10,
             points = [Vector3d 5 5 5], radii = [1] \<rparr> (Vector3d 1 1 1)
      \<lparr> u_max = Vector3d 1 1 1, u_min = Vector3d (-1) (-1) (-1),
           d_v = Vector3d 0 0 0, d_a = Vector3d 1 1 1,
           a_max = Vector3d (7 / 2) (7 / 2) (7 / 2), u2a = Vector3d (7 / 2) (7 / 2) (7 / 2),
           max_planner_speed = Vector3d 1 1 1, expand = Vector3d 0 0 0 \<rparr>
      \<lparr> u_max = Vector3d 1 1 1, u_min = Vector3d (-1) (-1) (-1),
           d_v = Vector3d 0 0 0, d_a = Vector3d 1 1 1,
           a_max = Vector3d (7 / 2) (7 / 2) (7 / 2), u2a = Vector3d (7 / 2) (7 / 2) (7 / 2),
           max_planner_speed = Vector3d 1 1 1, expand = Vector3d 0 0 0 \<rparr> \<and>
   \<not> IsValid \<lparr> lower = Vector3d 0 0 0, upper = Vector3d 10 10 10,
             points = [Vector3d 5 5 5], radii = [1] \<rparr> (Vector3d 5 5 5)
      \<lparr> u_max = Vector3d 1 1 1, u_min = Vector3d (-1) (-1) (-1),
           d_v = Vector3d 0 0 0, d_a = Vector3d 1 1 1,
           a_max = Vector3d (7 / 2) (7 / 2) (7 / 2), u2a = Vector3d (7 / 2) (7 / 2) (7 / 2),
           max_planner_speed = Vector3d 1 1 1, expand = Vector3d 0 0 0 \<rparr>
      \<lparr> u_max = Vector3d 1 1 1, u_min = Vector3d (-1) (-1) (-1),
           d_v = Vector3d 0 0 0, d_a = Vector3d 1 1 1,
           a_max = Vector3d (7 / 2) (7 / 2) (7 / 2), u2a = Vector3d (7 / 2) (7 / 2) (7 / 2),
           max_planner_speed = Vector3d 1 1 1, expand = Vector3d 0 0 0 \<rparr>"
proof -
  let ?env = "\<lparr> lower = Vector3d 0 0 0, upper = Vector3d 10 10 10,
             points = [Vector3d 5 5 5], radii = [1] \<rparr>"
  let ?vf = "\<lparr> u_max = Vector3d 1 1 1, u_min = Vector3d (-1) (-1) (-1),
           d_v = Vector3d 0 0 0, d_a = Vector3d 1 1 1,
           a_max = Vector3d (7 / 2) (7 / 2) (7 / 2), u2a = Vector3d (7 / 2) (7 / 2) (7 / 2),
           max_planner_speed = Vector3d 1 1 1, expand = Vector3d 0 0 0 \<rparr>"
  have len: "length (radii ?env) = length (points ?env)" by simp
  have nz: "\<forall>ii<3. coeff (a_max ?vf) ii \<noteq> coeff (d_a ?vf) ii" by (simp add: all_less_3)
  have nn: "\<forall>ii<3. 0 \<le> TrackingBound ?vf ii" by (simp add: TrackingBound_fifth)
  have cc: "closest_corner (Vector3d 1 1 1) (Vector3d 5 5 5) ?vf ?vf = Vector3d (6 / 5) (6 / 5) (6 / 5)"
    by (simp add: closest_corner_eq TrackingBound_fifth)
  have a: "IsValid ?env (Vector3d 1 1 1) ?vf ?vf"
    using IsValid_characterisation [of ?env ?vf "Vector3d 1 1 1" "Vector3d 5 5 5" "Vector3d 5 5 5", OF len nz nn]
    by (simp add: all_less_3 TrackingBound_fifth cc norm_v_gt_iff)
  have b: "\<not> IsValid ?env (Vector3d 5 5 5) ?vf ?vf"
    using IsValid_characterisation [of ?env ?vf "Vector3d 5 5 5" "Vector3d 5 5 5" "Vector3d 5 5 5", OF len nz nn]
    by (simp add: all_less_3 TrackingBound_fifth norm_v_gt_iff)
  from a b show ?thesis by simp
qed

section \<open>Construction and the tracking bound\<close>

lemma coeff_cwiseQuotient: "coeff (cwiseQuotient a b) i = coeff a i / coeff b i"
  by (cases a; cases b) simp

lemma coeff_cwiseProduct: "coeff (cwiseProduct a b) i = coeff a i * coeff b i"
  by (cases a; cases b) simp

lemma coeff_cwiseAbs: "coeff (cwiseAbs a) i = \<bar>coeff a i\<bar>"
  by (cases a) simp

lemma coeff_vminus: "coeff (vminus a b) i = coeff a i - coeff b i"
  by (cases a; cases b) simp

lemma coeff_vplus: "coeff (vplus a b) i = coeff a i + coeff b i"
  by (cases a; cases b) simp

lemma coeff_smult: "coeff (smult k a) i = k * coeff a i"
  by (cases a) simp

lemmas coeff_simps = coeff_cwiseQuotient coeff_cwiseProduct coeff_cwiseAbs coeff_vminus
  coeff_vplus coeff_smult

lemma TrackingBound_construct:
  "TrackingBound (construct mps umax umin dv da ev Ev) dm =
     bound_formula (coeff mps dm) (coeff dv dm) (coeff ev dm)
       (coeff (cwiseAbs (tail3 (Ev (ZeroX 6) (to_VectorXd umax)))) dm - coeff da dm)"
  by (simp add: TrackingBound_def construct_def Let_def coeff_simps bound_formula_def)

lemma bound_formula_nonneg:
  assumes "0 \<le> v" "0 \<le> e" "0 < k"
  shows "0 \<le> bound_formula v dv e k"
proof -
  have g: "0 \<le> 1 + e * (2 * v + 0.5 * e) / k" using assms by simp
  have s: "0 \<le> 0.5 * ((v + dv) * (v + dv))" by simp
  have "0 \<le> 0.5 * ((v + dv) * (v + dv)) * (1 + e * (2 * v + 0.5 * e) / k)"
    by (rule mult_nonneg_nonneg [OF s g])
  then show ?thesis using assms(3) by (simp add: bound_formula_def mult.assoc)
qed

lemma bound_formula_mono_v:
  assumes "0 \<le> v" "v < v'" "0 \<le> dv" "0 \<le> e" "0 < k"
  shows "bound_formula v dv e k < bound_formula v' dv e k"
proof -
  have s: "(v + dv) * (v + dv) < (v' + dv) * (v' + dv)"
    using assms by (intro mult_strict_mono) simp_all
  have g: "1 + e * (2 * v + 0.5 * e) / k \<le> 1 + e * (2 * v' + 0.5 * e) / k"
    using assms by (simp add: divide_right_mono mult_left_mono)
  have g0: "0 < 1 + e * (2 * v + 0.5 * e) / k"
    using assms by (simp add: add_pos_nonneg)
  have "(v + dv) * (v + dv) * (1 + e * (2 * v + 0.5 * e) / k)
      < (v' + dv) * (v' + dv) * (1 + e * (2 * v' + 0.5 * e) / k)"
    by (rule mult_less_le_imp_less [OF s g _ g0]) simp
  then have "0.5 * ((v + dv) * (v + dv) * (1 + e * (2 * v + 0.5 * e) / k)) / k
      < 0.5 * ((v' + dv) * (v' + dv) * (1 + e * (2 * v' + 0.5 * e) / k)) / k"
    using assms(5) by (simp add: divide_strict_right_mono)
  then show ?thesis by (simp add: bound_formula_def mult.assoc)
qed

lemma bound_formula_mono_dv:
  assumes "0 \<le> v" "0 \<le> dv" "dv < dv'" "0 \<le> e" "0 < k"
  shows "bound_formula v dv e k < bound_formula v dv' e k"
proof -
  have s: "(v + dv) * (v + dv) < (v + dv') * (v + dv')"
    using assms by (intro mult_strict_mono) simp_all
  have g0: "0 < 1 + e * (2 * v + 0.5 * e) / k"
    using assms by (simp add: add_pos_nonneg)
  have "(v + dv) * (v + dv) * (1 + e * (2 * v + 0.5 * e) / k)
      < (v + dv') * (v + dv') * (1 + e * (2 * v + 0.5 * e) / k)"
    using s g0 by (intro mult_strict_right_mono)
  then have "0.5 * ((v + dv) * (v + dv) * (1 + e * (2 * v + 0.5 * e) / k)) / k
      < 0.5 * ((v + dv') * (v + dv') * (1 + e * (2 * v + 0.5 * e) / k)) / k"
    using assms(5) by (simp add: divide_strict_right_mono)
  then show ?thesis by (simp add: bound_formula_def mult.assoc)
qed

lemma bound_formula_mono_k:
  assumes "0 \<le> v" "0 \<le> e" "0 < k'" "k' < k"
  shows "bound_formula v dv e k \<le> bound_formula v dv e k'"
    and "v + dv \<noteq> 0 \<Longrightarrow> bound_formula v dv e k < bound_formula v dv e k'"
proof -
  let ?E = "e * (2 * v + 0.5 * e)"
  have E: "0 \<le> ?E" using assms by simp
  have k: "0 < k" using assms by simp
  have q: "?E / k \<le> ?E / k'" using assms E by (intro divide_left_mono) simp_all
  have g0: "0 < 1 + ?E / k" using E k by (simp add: add_pos_nonneg)
  have i: "1 / k < 1 / k'" using assms by (simp add: frac_less2)
  have h: "(1 + ?E / k) * (1 / k) < (1 + ?E / k') * (1 / k')"
  proof (rule mult_le_less_imp_less)
    show "1 + ?E / k \<le> 1 + ?E / k'" using q by simp
    show "1 / k < 1 / k'" by (rule i)
    show "0 < 1 + ?E / k" by (rule g0)
    show "0 \<le> 1 / k" using k by simp
  qed
  have eq: "bound_formula v dv e c = 0.5 * ((v + dv) * (v + dv)) * ((1 + ?E / c) * (1 / c))" for c
    by (simp add: bound_formula_def)
  have s: "0 \<le> 0.5 * ((v + dv) * (v + dv))" by simp
  show "bound_formula v dv e k \<le> bound_formula v dv e k'"
    unfolding eq using h s by (intro mult_left_mono) simp_all
  assume "v + dv \<noteq> 0"
  then have "0 < (v + dv) * (v + dv)" by (cases "0 < v + dv") (simp_all add: zero_less_mult_iff)
  then have "0 < 0.5 * ((v + dv) * (v + dv))" by simp
  then show "bound_formula v dv e k < bound_formula v dv e k'"
    unfolding eq using h by (intro mult_strict_left_mono)
qed

lemma a_max_construct:
  "a_max (construct mps umax umin dv da ev Ev) = cwiseAbs (tail3 (Ev (ZeroX 6) (to_VectorXd umax)))"
  by (simp add: construct_def Let_def)

text \<open>
  C5. For a spatial axis of a constructed value function with \<open>a_max > d_a\<close> and with
  non-negative planner speed, velocity disturbance and expansion velocity:
  \<^verbatim>\<open>TrackingBound\<close> is non-negative; it grows strictly with the planner speed of the axis
  and with its velocity disturbance; it does not fall when the acceleration disturbance
  grows (staying below \<open>a_max\<close>), and grows strictly when planner speed plus velocity
  disturbance is positive.
\<close>

theorem TrackingBound_nonneg_monotone:
  assumes "dm < 3"
    and "0 \<le> coeff mps dm" and "0 \<le> coeff dv dm" and "0 \<le> coeff ev dm"
    and "coeff da dm < coeff (a_max (construct mps umax umin dv da ev Ev)) dm"
  shows "0 \<le> TrackingBound (construct mps umax umin dv da ev Ev) dm \<and>
    (coeff mps dm < coeff mps' dm \<longrightarrow>
       TrackingBound (construct mps umax umin dv da ev Ev) dm
         < TrackingBound (construct mps' umax umin dv da ev Ev) dm) \<and>
    (coeff dv dm < coeff dv' dm \<longrightarrow>
       TrackingBound (construct mps umax umin dv da ev Ev) dm
         < TrackingBound (construct mps umax umin dv' da ev Ev) dm) \<and>
    (coeff da dm < coeff da' dm \<and>
     coeff da' dm < coeff (a_max (construct mps umax umin dv da' ev Ev)) dm \<longrightarrow>
       TrackingBound (construct mps umax umin dv da ev Ev) dm
         \<le> TrackingBound (construct mps umax umin dv da' ev Ev) dm \<and>
       (0 < coeff mps dm + coeff dv dm \<longrightarrow>
          TrackingBound (construct mps umax umin dv da ev Ev) dm
            < TrackingBound (construct mps umax umin dv da' ev Ev) dm))"
proof -
  let ?A = "coeff (cwiseAbs (tail3 (Ev (ZeroX 6) (to_VectorXd umax)))) dm"
  from assms(5) have k: "0 < ?A - coeff da dm" by (simp add: a_max_construct)
  have n: "0 \<le> TrackingBound (construct mps umax umin dv da ev Ev) dm"
    unfolding TrackingBound_construct by (rule bound_formula_nonneg [OF assms(2) assms(4) k])
  have v: "TrackingBound (construct mps umax umin dv da ev Ev) dm
         < TrackingBound (construct mps' umax umin dv da ev Ev) dm" if "coeff mps dm < coeff mps' dm"
    unfolding TrackingBound_construct
    by (rule bound_formula_mono_v [OF assms(2) that assms(3) assms(4) k])
  have d: "TrackingBound (construct mps umax umin dv da ev Ev) dm
         < TrackingBound (construct mps umax umin dv' da ev Ev) dm" if "coeff dv dm < coeff dv' dm"
    unfolding TrackingBound_construct
    by (rule bound_formula_mono_dv [OF assms(2) assms(3) that assms(4) k])
  have a: "TrackingBound (construct mps umax umin dv da ev Ev) dm
         \<le> TrackingBound (construct mps umax umin dv da' ev Ev) dm \<and>
       (0 < coeff mps dm + coeff dv dm \<longrightarrow>
          TrackingBound (construct mps umax umin dv da ev Ev) dm
            < TrackingBound (construct mps umax umin dv da' ev Ev) dm)"
    if "coeff da dm < coeff da' dm \<and>
        coeff da' dm < coeff (a_max (construct mps umax umin dv da' ev Ev)) dm"
  proof -
    from that have k': "0 < ?A - coeff da' dm" and lt: "?A - coeff da' dm < ?A - coeff da dm"
      by (simp_all add: a_max_construct)
    show ?thesis unfolding TrackingBound_construct
      using bound_formula_mono_k [OF assms(2) assms(4) k' lt, of "coeff dv dm"] by auto
  qed
  from n v d a show ?thesis by blast
qed

text \<open>
  The examples take \<^verbatim>\<open>NearHoverQuadNoYaw\<close> as dynamics, with \<open>G = 9.81\<close> and a maximum
  thrust of \<open>11.81\<close>: \<open>a_max\<close> is \<open>(0, 0, 2)\<close>.
\<close>

lemma tail3_NearHover:
  "tail3 (NearHoverQuadNoYaw_Evaluate G (ZeroX 6) [u0, u1, u2]) =
     Vector3d (G * tan u1) 0 (u2 - G)"
  by (simp add: tail3_def NearHoverQuadNoYaw_Evaluate_def ZeroX_6)

lemma a_max_NearHover:
  "a_max (construct mps (Vector3d u0 u1 u2) umin dv da ev (NearHoverQuadNoYaw_Evaluate G)) =
     Vector3d \<bar>G * tan u1\<bar> 0 \<bar>u2 - G\<bar>"
  by (simp add: a_max_construct tail3_NearHover)

lemma TrackingBound_NearHover_2:
  "TrackingBound (construct mps (Vector3d u0 u1 u2) umin dv da ev (NearHoverQuadNoYaw_Evaluate G)) 2 =
     bound_formula (coeff mps 2) (coeff dv 2) (coeff ev 2) (\<bar>u2 - G\<bar> - coeff da 2)"
  by (simp add: TrackingBound_construct tail3_NearHover)

text \<open>
  With \<open>a_max = 2 > d_a = 1\<close> in the third axis: an expansion velocity of \<open>- 1\<close> makes the
  bound negative; and with planner speed and velocity disturbance both zero the bound
  is zero for \<open>d_a = 0\<close> and for \<open>d_a = 1\<close>, so it does not grow.
\<close>

theorem TrackingBound_counterexample:
  "coeff (Vector3d 0 0 1) 2
     < coeff (a_max (construct (Vector3d 1 1 1) (Vector3d 0 0 (1181 / 100)) (Vector3d 0 0 0)
          (Vector3d 0 0 0) (Vector3d 0 0 1) (Vector3d (- 1) (- 1) (- 1))
          (NearHoverQuadNoYaw_Evaluate (981 / 100)))) 2 \<and>
   TrackingBound (construct (Vector3d 1 1 1) (Vector3d 0 0 (1181 / 100)) (Vector3d 0 0 0)
          (Vector3d 0 0 0) (Vector3d 0 0 1) (Vector3d (- 1) (- 1) (- 1))
          (NearHoverQuadNoYaw_Evaluate (981 / 100))) 2 < 0 \<and>
   coeff (Vector3d 0 0 0) 2 < coeff (Vector3d 0 0 1) 2 \<and>
   coeff (Vector3d 0 0 1) 2
     < coeff (a_max (construct (Vector3d 0 0 0) (Vector3d 0 0 (1181 / 100)) (Vector3d 0 0 0)
          (Vector3d 0 0 0) (Vector3d 0 0 1) (Vector3d 0 0 0)
          (NearHoverQuadNoYaw_Evaluate (981 / 100)))) 2 \<and>
   \<not> TrackingBound (construct (Vector3d 0 0 0) (Vector3d 0 0 (1181 / 100)) (Vector3d 0 0 0)
          (Vector3d 0 0 0) (Vector3d 0 0 0) (Vector3d 0 0 0)
          (NearHoverQuadNoYaw_Evaluate (981 / 100))) 2
     < TrackingBound (construct (Vector3d 0 0 0) (Vector3d 0 0 (1181 / 100)) (Vector3d 0 0 0)
          (Vector3d 0 0 0) (Vector3d 0 0 1) (Vector3d 0 0 0)
          (NearHoverQuadNoYaw_Evaluate (981 / 100))) 2"
  by (simp add: a_max_NearHover TrackingBound_NearHover_2 bound_formula_def)

theorem TrackingBound_nonneg_monotone_witness:
  "(2::nat) < 3 \<and>
   0 \<le> TrackingBound (construct (Vector3d 1 1 1) (Vector3d 0 0 (1181 / 100)) (Vector3d 0 0 0)
          (Vector3d 0 0 0) (Vector3d 0 0 1) (Vector3d 0 0 0)
          (NearHoverQuadNoYaw_Evaluate (981 / 100))) 2 \<and>
   TrackingBound (construct (Vector3d 1 1 1) (Vector3d 0 0 (1181 / 100)) (Vector3d 0 0 0)
          (Vector3d 0 0 0) (Vector3d 0 0 1) (Vector3d 0 0 0)
          (NearHoverQuadNoYaw_Evaluate (981 / 100))) 2
   < TrackingBound (construct (Vector3d 2 2 2) (Vector3d 0 0 (1181 / 100)) (Vector3d 0 0 0)
          (Vector3d 0 0 0) (Vector3d 0 0 1) (Vector3d 0 0 0)
          (NearHoverQuadNoYaw_Evaluate (981 / 100))) 2"
  using TrackingBound_nonneg_monotone [of 2 "Vector3d 1 1 1" "Vector3d 0 0 0" "Vector3d 0 0 0" "Vector3d 0 0 1"
                  "Vector3d 0 0 (1181 / 100)" "Vector3d 0 0 0" "NearHoverQuadNoYaw_Evaluate (981 / 100)"
                  "Vector3d 2 2 2" "Vector3d 0 0 0" "Vector3d 0 0 1"]
  by (simp add: a_max_NearHover)

lemma d_a_construct: "d_a (construct mps umax umin dv da ev Ev) = da"
  by (simp add: construct_def Let_def)

lemma fields_construct:
  "max_planner_speed (construct mps umax umin dv da ev Ev) = mps"
  "u_max (construct mps umax umin dv da ev Ev) = umax"
  "u_min (construct mps umax umin dv da ev Ev) = umin"
  "d_v (construct mps umax umin dv da ev Ev) = dv"
  by (simp_all add: construct_def Let_def)

text \<open>
  C3. Construction does not fail: the constructor checks nothing, and for all parameters
  \<^verbatim>\<open>Create\<close> returns a value function that holds the given speed, control and disturbance
  bounds and the \<open>a_max\<close> computed from the dynamics. Where the net authority
  \<open>a_max - d_a\<close> of the parameters is zero or negative in an axis, a value function is
  returned all the same, and its net authority in that axis is that zero or negative
  number.
\<close>

theorem Create_never_fails:
  "(\<exists>vf. Create mps umax umin dv da ev Ev = Some vf \<and>
         max_planner_speed vf = mps \<and> u_max vf = umax \<and> u_min vf = umin \<and>
         d_v vf = dv \<and> d_a vf = da \<and>
         a_max vf = cwiseAbs (tail3 (Ev (ZeroX 6) (to_VectorXd umax)))) \<and>
   (dm < 3 \<and> coeff (cwiseAbs (tail3 (Ev (ZeroX 6) (to_VectorXd umax)))) dm - coeff da dm \<le> 0 \<longrightarrow>
      (\<exists>vf. Create mps umax umin dv da ev Ev = Some vf \<and>
            coeff (a_max vf) dm - coeff (d_a vf) dm \<le> 0))"
proof -
  let ?vf = "construct mps umax umin dv da ev Ev"
  have c: "Create mps umax umin dv da ev Ev = Some ?vf" by (simp add: Create_def)
  have f: "max_planner_speed ?vf = mps \<and> u_max ?vf = umax \<and> u_min ?vf = umin \<and>
         d_v ?vf = dv \<and> d_a ?vf = da \<and>
         a_max ?vf = cwiseAbs (tail3 (Ev (ZeroX 6) (to_VectorXd umax)))"
    by (simp add: fields_construct d_a_construct a_max_construct)
  from c f have 1: "\<exists>vf. Create mps umax umin dv da ev Ev = Some vf \<and>
         max_planner_speed vf = mps \<and> u_max vf = umax \<and> u_min vf = umin \<and>
         d_v vf = dv \<and> d_a vf = da \<and>
         a_max vf = cwiseAbs (tail3 (Ev (ZeroX 6) (to_VectorXd umax)))"
    by blast
  have 2: "\<exists>vf. Create mps umax umin dv da ev Ev = Some vf \<and>
            coeff (a_max vf) dm - coeff (d_a vf) dm \<le> 0"
    if "coeff (cwiseAbs (tail3 (Ev (ZeroX 6) (to_VectorXd umax)))) dm - coeff da dm \<le> 0"
  proof -
    from that f have "coeff (a_max ?vf) dm - coeff (d_a ?vf) dm \<le> 0" by simp
    with c show ?thesis by blast
  qed
  from 1 2 show ?thesis by blast
qed

text \<open>
  With \<^verbatim>\<open>NearHoverQuadNoYaw\<close> the second entry of \<open>a_max\<close> is 0; with \<open>d_a = 1\<close> the net
  authority of that axis is \<open>- 1\<close>, and \<^verbatim>\<open>Create\<close> returns a value function.
\<close>

theorem Create_nonpositive_authority_counterexample:
  "coeff (a_max (construct (Vector3d 1 1 1) (Vector3d 0 0 (1181 / 100)) (Vector3d 0 0 0)
          (Vector3d 0 0 0) (Vector3d 1 1 1) (Vector3d 0 0 0)
          (NearHoverQuadNoYaw_Evaluate (981 / 100)))) 1
   - coeff (d_a (construct (Vector3d 1 1 1) (Vector3d 0 0 (1181 / 100)) (Vector3d 0 0 0)
          (Vector3d 0 0 0) (Vector3d 1 1 1) (Vector3d 0 0 0)
          (NearHoverQuadNoYaw_Evaluate (981 / 100)))) 1 < 0 \<and>
   Create (Vector3d 1 1 1) (Vector3d 0 0 (1181 / 100)) (Vector3d 0 0 0)
          (Vector3d 0 0 0) (Vector3d 1 1 1) (Vector3d 0 0 0)
          (NearHoverQuadNoYaw_Evaluate (981 / 100)) \<noteq> None"
  by (simp add: a_max_NearHover d_a_construct Create_def)

theorem Create_never_fails_witness:
  "\<exists>vf. Create (Vector3d 1 1 1) (Vector3d 0 0 (1181 / 100)) (Vector3d 0 0 0)
          (Vector3d 0 0 0) (Vector3d 1 1 1) (Vector3d 0 0 0)
          (NearHoverQuadNoYaw_Evaluate (981 / 100)) = Some vf \<and>
        coeff (a_max vf) 1 - coeff (d_a vf) 1 \<le> 0"
  using Create_never_fails [of "Vector3d 1 1 1" "Vector3d 0 0 (1181 / 100)" "Vector3d 0 0 0"
          "Vector3d 0 0 0" "Vector3d 1 1 1" "Vector3d 0 0 0"
          "NearHoverQuadNoYaw_Evaluate (981 / 100)" 1]
  by (simp add: tail3_NearHover)

section \<open>The gradient\<close>

lemma eventually_less_of_isCont:
  fixes g h :: "real \<Rightarrow> real"
  assumes "isCont g t0" and "isCont h t0" and "h t0 < g t0"
  shows "eventually (\<lambda>t. h t < g t) (nhds t0)"
proof -
  have "isCont (\<lambda>t. g t - h t) t0" using assms(1,2) by (intro continuous_intros)
  then have "((\<lambda>t. g t - h t) \<longlongrightarrow> g t0 - h t0) (nhds t0)"
    using tendsto_at_iff_tendsto_nhds [of "\<lambda>t. g t - h t" t0] by (simp add: isCont_def)
  then have "eventually (\<lambda>t. 0 < g t - h t) (nhds t0)"
    by (rule order_tendstoD(1)) (use assms(3) in simp)
  then show ?thesis by (rule eventually_mono) simp
qed

lemma DERIV_max_left:
  fixes g h :: "real \<Rightarrow> real"
  assumes "DERIV g t0 :> D" and "isCont h t0" and "h t0 < g t0"
  shows "DERIV (\<lambda>t. max (g t) (h t)) t0 :> D"
proof -
  have "eventually (\<lambda>t. h t < g t) (nhds t0)"
    by (rule eventually_less_of_isCont [OF DERIV_isCont [OF assms(1)] assms(2) assms(3)])
  then have "eventually (\<lambda>t. max (g t) (h t) = g t) (nhds t0)"
    by (rule eventually_mono) (simp add: max_def)
  from DERIV_cong_ev [OF refl this refl] assms(1) show ?thesis by simp
qed

lemma DERIV_max_right:
  fixes g h :: "real \<Rightarrow> real"
  assumes "DERIV g t0 :> D" and "isCont h t0" and "h t0 < g t0"
  shows "DERIV (\<lambda>t. max (h t) (g t)) t0 :> D"
  using DERIV_max_left [OF assms] by (simp add: max.commute)

lemma DERIV_V_A_position:
  assumes "k < 3" and "length state = 6"
  shows "DERIV (\<lambda>t. V_A vf (state[k := t]) k) t0 :> - 1"
proof -
  have "(\<lambda>t. V_A vf (state[k := t]) k) =
        (\<lambda>t. - t + (0.5 * (state ! (3 + k) - coeff (max_planner_speed vf) k)
                          * (state ! (3 + k) - coeff (max_planner_speed vf) k)
                      - coeff (max_planner_speed vf) k * coeff (max_planner_speed vf) k
                          * (1.0 + coeff (expand vf) k))
                     / (coeff (a_max vf) k - coeff (d_a vf) k))"
    using assms by (simp add: V_A_def Let_def p_dim_def)
  then show ?thesis by (auto intro!: derivative_eq_intros)
qed

lemma DERIV_V_B_position:
  assumes "k < 3" and "length state = 6"
  shows "DERIV (\<lambda>t. V_B vf (state[k := t]) k) t0 :> 1"
proof -
  have "(\<lambda>t. V_B vf (state[k := t]) k) =
        (\<lambda>t. t - (- 0.5 * (state ! (3 + k) + coeff (max_planner_speed vf) k)
                          * (state ! (3 + k) + coeff (max_planner_speed vf) k)
                      + coeff (max_planner_speed vf) k * coeff (max_planner_speed vf) k
                          * (1.0 + coeff (expand vf) k))
                     / (coeff (a_max vf) k - coeff (d_a vf) k))"
    using assms by (simp add: V_B_def Let_def p_dim_def)
  then show ?thesis by (auto intro!: derivative_eq_intros)
qed

lemma DERIV_V_A_velocity:
  assumes "k < 3" and "length state = 6"
  shows "DERIV (\<lambda>t. V_A vf (state[3 + k := t]) k) t0
           :> (t0 - coeff (max_planner_speed vf) k) / (coeff (a_max vf) k - coeff (d_a vf) k)"
proof -
  let ?r = "coeff (max_planner_speed vf) k"
  let ?c = "coeff (a_max vf) k - coeff (d_a vf) k"
  have eq: "(\<lambda>t. V_A vf (state[3 + k := t]) k) =
        (\<lambda>t. - (state ! k) + (0.5 * (t - ?r) * (t - ?r) - ?r * ?r * (1.0 + coeff (expand vf) k)) / ?c)"
    using assms by (simp add: V_A_def Let_def p_dim_def)
  have "DERIV (\<lambda>t. 0.5 * (t - ?r) * (t - ?r) - ?r * ?r * (1.0 + coeff (expand vf) k)) t0 :> t0 - ?r"
    by (auto intro!: derivative_eq_intros simp: field_simps)
  then have "DERIV (\<lambda>t. (0.5 * (t - ?r) * (t - ?r) - ?r * ?r * (1.0 + coeff (expand vf) k)) / ?c) t0
               :> (t0 - ?r) / ?c"
    by (rule DERIV_cdivide)
  from DERIV_add [OF DERIV_const [of "- (state ! k)"] this]
  have "DERIV (\<lambda>t. - (state ! k) + (0.5 * (t - ?r) * (t - ?r) - ?r * ?r * (1.0 + coeff (expand vf) k)) / ?c) t0
               :> (t0 - ?r) / ?c"
    by simp
  then show ?thesis unfolding eq .
qed

lemma DERIV_V_B_velocity:
  assumes "k < 3" and "length state = 6"
  shows "DERIV (\<lambda>t. V_B vf (state[3 + k := t]) k) t0
           :> (t0 + coeff (max_planner_speed vf) k) / (coeff (a_max vf) k - coeff (d_a vf) k)"
proof -
  let ?r = "coeff (max_planner_speed vf) k"
  let ?c = "coeff (a_max vf) k - coeff (d_a vf) k"
  have eq: "(\<lambda>t. V_B vf (state[3 + k := t]) k) =
        (\<lambda>t. state ! k - (- 0.5 * (t + ?r) * (t + ?r) + ?r * ?r * (1.0 + coeff (expand vf) k)) / ?c)"
    using assms by (simp add: V_B_def Let_def p_dim_def)
  have "DERIV (\<lambda>t. - 0.5 * (t + ?r) * (t + ?r) + ?r * ?r * (1.0 + coeff (expand vf) k)) t0 :> - (t0 + ?r)"
    by (auto intro!: derivative_eq_intros simp: field_simps)
  then have "DERIV (\<lambda>t. (- 0.5 * (t + ?r) * (t + ?r) + ?r * ?r * (1.0 + coeff (expand vf) k)) / ?c) t0
               :> - (t0 + ?r) / ?c"
    by (rule DERIV_cdivide)
  then have d: "DERIV (\<lambda>t. state ! k - (- 0.5 * (t + ?r) * (t + ?r) + ?r * ?r * (1.0 + coeff (expand vf) k)) / ?c) t0
               :> 0 - (- (t0 + ?r) / ?c)"
    by (rule DERIV_diff [OF DERIV_const])
  have e: "0 - (- (t0 + ?r) / ?c) = (t0 + ?r) / ?c"
    by (simp only: diff_0 minus_divide_left [symmetric] minus_minus)
  show ?thesis using d unfolding eq e .
qed

lemma fold_update_pairs:
  "fold (\<lambda>k G. (G[k := a k])[3 + k := b k]) [0, 1, 2] [0, 0, 0, 0, 0, 0::real] =
     [a 0, a 1, a 2, b 0, b 1, b 2]"
  by (simp add: numeral_3_eq_3 numeral_2_eq_2 eval_nat_numeral)

lemma Gradient_nth:
  assumes "k < 3" and "coeff (a_max vf) k \<noteq> coeff (d_a vf) k"
  shows "length (Gradient vf state) = 6"
    and "Gradient vf state ! k = (if V_A vf state k > V_B vf state k then - 1 else 1)"
    and "Gradient vf state ! (3 + k) =
      (if V_A vf state k > V_B vf state k
       then (state ! (3 + k) - coeff (max_planner_speed vf) k) / (coeff (a_max vf) k - coeff (d_a vf) k)
       else (state ! (3 + k) + coeff (max_planner_speed vf) k) / (coeff (a_max vf) k - coeff (d_a vf) k))"
proof -
  have step: "Gradient_step vf state =
     (\<lambda>k G. (G[k := (if V_A vf state k > V_B vf state k then - 1 else 1)])
               [3 + k := (if V_A vf state k > V_B vf state k
                  then (state ! (3 + k) - coeff (max_planner_speed vf) k) / (coeff (a_max vf) k - coeff (d_a vf) k)
                  else (state ! (3 + k) + coeff (max_planner_speed vf) k) / (coeff (a_max vf) k - coeff (d_a vf) k))])"
    by (intro ext) (simp add: Gradient_step_def Let_def p_dim_def)
  have z: "ZeroX x_dim = [0, 0, 0, 0, 0, 0]" by (simp add: x_dim_def ZeroX_6)
  have eq: "Gradient vf state =
       [if V_A vf state 0 > V_B vf state 0 then - 1 else 1,
        if V_A vf state 1 > V_B vf state 1 then - 1 else 1,
        if V_A vf state 2 > V_B vf state 2 then - 1 else 1,
        if V_A vf state 0 > V_B vf state 0
        then (state ! (3 + 0) - coeff (max_planner_speed vf) 0) / (coeff (a_max vf) 0 - coeff (d_a vf) 0)
        else (state ! (3 + 0) + coeff (max_planner_speed vf) 0) / (coeff (a_max vf) 0 - coeff (d_a vf) 0),
        if V_A vf state 1 > V_B vf state 1
        then (state ! (3 + 1) - coeff (max_planner_speed vf) 1) / (coeff (a_max vf) 1 - coeff (d_a vf) 1)
        else (state ! (3 + 1) + coeff (max_planner_speed vf) 1) / (coeff (a_max vf) 1 - coeff (d_a vf) 1),
        if V_A vf state 2 > V_B vf state 2
        then (state ! (3 + 2) - coeff (max_planner_speed vf) 2) / (coeff (a_max vf) 2 - coeff (d_a vf) 2)
        else (state ! (3 + 2) + coeff (max_planner_speed vf) 2) / (coeff (a_max vf) 2 - coeff (d_a vf) 2)]"
    unfolding Gradient_def p_dim_upt z step by (rule fold_update_pairs)
  show "length (Gradient vf state) = 6"
    and "Gradient vf state ! k = (if V_A vf state k > V_B vf state k then - 1 else 1)"
    and "Gradient vf state ! (3 + k) =
      (if V_A vf state k > V_B vf state k
       then (state ! (3 + k) - coeff (max_planner_speed vf) k) / (coeff (a_max vf) k - coeff (d_a vf) k)
       else (state ! (3 + k) + coeff (max_planner_speed vf) k) / (coeff (a_max vf) k - coeff (d_a vf) k))"
    using assms(1) unfolding less_3_cases eq by auto
qed

lemma rest_sets:
  "{0, 1, 2} - {0::nat} = {1, 2}" "{0, 1, 2} - {1::nat} = {0, 2}" "{0, 1, 2} - {2::nat} = {0, 1}"
  by auto

lemma max3_split:
  fixes f :: "nat \<Rightarrow> real"
  assumes "k < 3"
  shows "max (max (f 0) (f 1)) (f 2) = max (f k) (Max (f ` ({0, 1, 2} - {k})))"
proof -
  have a: "max (max a b) c = max a (max b c)" and b: "max (max a b) c = max b (max a c)"
    and c: "max (max a b) c = max c (max a b)" for a b c :: real
    by (simp_all add: max_def)
  from assms have "k = 0 \<or> k = 1 \<or> k = 2" by (simp add: less_3_cases)
  then show ?thesis
  proof (elim disjE)
    assume "k = 0" then show ?thesis by (simp only: rest_sets) (simp add: a)
  next
    assume "k = 1" then show ?thesis by (simp only: rest_sets) (simp add: b)
  next
    assume "k = 2" then show ?thesis by (simp only: rest_sets) (simp add: c)
  qed
qed

lemma Max_rest_less:
  fixes f :: "nat \<Rightarrow> real"
  assumes "k < 3"
  shows "Max (f ` ({0, 1, 2} - {k})) < x \<longleftrightarrow> (\<forall>j<3. j \<noteq> k \<longrightarrow> f j < x)"
proof -
  from assms have "k = 0 \<or> k = 1 \<or> k = 2" by (simp add: less_3_cases)
  then show ?thesis
  proof (elim disjE)
    assume "k = 0" then show ?thesis by (simp only: rest_sets all_less_3) simp
  next
    assume "k = 1" then show ?thesis by (simp only: rest_sets all_less_3) simp
  next
    assume "k = 2" then show ?thesis by (simp only: rest_sets all_less_3) simp
  qed
qed

lemma Value_split:
  assumes "k < 3" and nz: "\<forall>dm<3. coeff (a_max vf) dm \<noteq> coeff (d_a vf) dm"
  shows "Value vf s = max (max (V_A vf s k) (V_B vf s k))
           (Max ((\<lambda>j. max (V_A vf s j) (V_B vf s j)) ` ({0, 1, 2} - {k})))"
  unfolding Value_eq [OF nz] by (rule max3_split [OF assms(1)])

lemma rest_less_iff:
  assumes "k < 3"
  shows "Max ((\<lambda>j. max (V_A vf s j) (V_B vf s j)) ` ({0, 1, 2} - {k})) < x \<longleftrightarrow>
           (\<forall>j<3. j \<noteq> k \<longrightarrow> max (V_A vf s j) (V_B vf s j) < x)"
  by (rule Max_rest_less [OF assms])

lemma surfaces_other_axis:
  assumes "k < 3" and "j < 3" and "j \<noteq> k" and "i = k \<or> i = 3 + k"
  shows "V_A vf (state[i := t]) j = V_A vf state j" and "V_B vf (state[i := t]) j = V_B vf state j"
  using assms by (auto simp: V_A_def V_B_def p_dim_def Let_def)

lemma rest_update:
  assumes "k < 3" and "i = k \<or> i = 3 + k"
  shows "Max ((\<lambda>j. max (V_A vf (state[i := t]) j) (V_B vf (state[i := t]) j)) ` ({0, 1, 2} - {k})) =
         Max ((\<lambda>j. max (V_A vf state j) (V_B vf state j)) ` ({0, 1, 2} - {k}))"
proof -
  have "(\<lambda>j. max (V_A vf (state[i := t]) j) (V_B vf (state[i := t]) j)) ` ({0, 1, 2} - {k}) =
        (\<lambda>j. max (V_A vf state j) (V_B vf state j)) ` ({0, 1, 2} - {k})"
    by (rule image_cong [OF refl]) (use assms in \<open>auto simp: surfaces_other_axis\<close>)
  then show ?thesis by simp
qed

lemma Value_update:
  assumes "k < 3" and "i = k \<or> i = 3 + k" and nz: "\<forall>dm<3. coeff (a_max vf) dm \<noteq> coeff (d_a vf) dm"
  shows "Value vf (state[i := t]) =
     max (max (V_A vf (state[i := t]) k) (V_B vf (state[i := t]) k))
         (Max ((\<lambda>j. max (V_A vf state j) (V_B vf state j)) ` ({0, 1, 2} - {k})))"
  unfolding Value_split [OF assms(1) nz, of "state[i := t]"] rest_update [OF assms(1,2)] ..

lemma DERIV_Value_own_axis:
  assumes k: "k < 3" and i: "i = k \<or> i = 3 + k"
    and nz: "\<forall>dm<3. coeff (a_max vf) dm \<noteq> coeff (d_a vf) dm"
    and dA: "DERIV (\<lambda>t. V_A vf (state[i := t]) k) (state ! i) :> DA"
    and dB: "DERIV (\<lambda>t. V_B vf (state[i := t]) k) (state ! i) :> DB"
    and top: "\<forall>j<3. j \<noteq> k \<longrightarrow> max (V_A vf state j) (V_B vf state j) < max (V_A vf state k) (V_B vf state k)"
  shows "V_B vf state k < V_A vf state k \<Longrightarrow> DERIV (\<lambda>t. Value vf (state[i := t])) (state ! i) :> DA"
    and "V_A vf state k < V_B vf state k \<Longrightarrow> DERIV (\<lambda>t. Value vf (state[i := t])) (state ! i) :> DB"
proof -
  let ?c = "Max ((\<lambda>j. max (V_A vf state j) (V_B vf state j)) ` ({0, 1, 2} - {k}))"
  let ?A = "\<lambda>t. V_A vf (state[i := t]) k" and ?B = "\<lambda>t. V_B vf (state[i := t]) k"
  have id: "state[i := state ! i] = state" by simp
  have c: "?c < max (?A (state ! i)) (?B (state ! i))"
    unfolding id rest_less_iff [OF k] by (rule top)
  have eq: "(\<lambda>t. Value vf (state[i := t])) = (\<lambda>t. max (max (?A t) (?B t)) ?c)"
    by (intro ext) (rule Value_update [OF k i nz])
  {
    assume "V_B vf state k < V_A vf state k"
    then have "?B (state ! i) < ?A (state ! i)" unfolding id .
    from DERIV_max_left [OF dA DERIV_isCont [OF dB] this]
    have "DERIV (\<lambda>t. max (?A t) (?B t)) (state ! i) :> DA" .
    from DERIV_max_left [OF this _ c]
    show "DERIV (\<lambda>t. Value vf (state[i := t])) (state ! i) :> DA" unfolding eq by simp
  }
  {
    assume "V_A vf state k < V_B vf state k"
    then have "?A (state ! i) < ?B (state ! i)" unfolding id .
    from DERIV_max_right [OF dB DERIV_isCont [OF dA] this]
    have "DERIV (\<lambda>t. max (?A t) (?B t)) (state ! i) :> DB" .
    from DERIV_max_left [OF this _ c]
    show "DERIV (\<lambda>t. Value vf (state[i := t])) (state ! i) :> DB" unfolding eq by simp
  }
qed

lemma DERIV_Value_other_axis:
  assumes k: "k < 3" and i: "i = k \<or> i = 3 + k"
    and nz: "\<forall>dm<3. coeff (a_max vf) dm \<noteq> coeff (d_a vf) dm"
    and dA: "DERIV (\<lambda>t. V_A vf (state[i := t]) k) (state ! i) :> DA"
    and dB: "DERIV (\<lambda>t. V_B vf (state[i := t]) k) (state ! i) :> DB"
    and low: "max (V_A vf state k) (V_B vf state k) < Value vf state"
  shows "DERIV (\<lambda>t. Value vf (state[i := t])) (state ! i) :> 0"
proof -
  let ?c = "Max ((\<lambda>j. max (V_A vf state j) (V_B vf state j)) ` ({0, 1, 2} - {k}))"
  let ?A = "\<lambda>t. V_A vf (state[i := t]) k" and ?B = "\<lambda>t. V_B vf (state[i := t]) k"
  have id: "state[i := state ! i] = state" by simp
  have "max (V_A vf state k) (V_B vf state k) < ?c"
    using low unfolding Value_split [OF k nz, of state] by (simp only: less_max_iff_disj less_irrefl simp_thms)
  then have c: "max (?A (state ! i)) (?B (state ! i)) < ?c" unfolding id .
  have eq: "(\<lambda>t. Value vf (state[i := t])) = (\<lambda>t. max (max (?A t) (?B t)) ?c)"
    by (intro ext) (rule Value_update [OF k i nz])
  have cont: "isCont (\<lambda>t. max (?A t) (?B t)) (state ! i)"
    by (rule continuous_max [OF DERIV_isCont [OF dA] DERIV_isCont [OF dB]])
  from DERIV_max_right [OF DERIV_const cont c]
  show ?thesis unfolding eq .
qed

text \<open>
  C7. For a 6-dimensional state and each spatial axis \<open>k\<close> with \<open>a_max \<noteq> d_a\<close>,
  \<^verbatim>\<open>Gradient\<close> returns a 6-vector
  whose entries \<open>k\<close> and \<open>3 + k\<close> are the partial derivatives, in that axis's position and
  velocity, of the surface the axis selects (\<open>V_A\<close> if \<open>V_A > V_B\<close>, else \<open>V_B\<close>):
  \<open>- 1\<close> and \<open>(v - v_ref) / (a_max - d_a)\<close> for \<open>V_A\<close>, \<open>1\<close> and
  \<open>(v + v_ref) / (a_max - d_a)\<close> for \<open>V_B\<close>. The three axes fill all six entries.
  With \<open>a_max \<noteq> d_a\<close> in every axis: where one surface is strictly above the other in
  axis \<open>k\<close> and axis \<open>k\<close> strictly attains the maximum, the two entries are the partial
  derivatives of \<^verbatim>\<open>Value\<close>. In an axis that
  is strictly below the maximum the partial derivatives of \<^verbatim>\<open>Value\<close> are zero, and the
  position entry of \<^verbatim>\<open>Gradient\<close> is not.
\<close>

theorem Gradient_active_surface:
  assumes "length state = 6" and "k < 3"
    and nzk: "coeff (a_max vf) k \<noteq> coeff (d_a vf) k"
  shows
   "length (Gradient vf state) = 6 \<and>
    Gradient vf state ! k = (if V_A vf state k > V_B vf state k then - 1 else 1) \<and>
    Gradient vf state ! (3 + k) =
      (if V_A vf state k > V_B vf state k
       then (state ! (3 + k) - coeff (max_planner_speed vf) k) / (coeff (a_max vf) k - coeff (d_a vf) k)
       else (state ! (3 + k) + coeff (max_planner_speed vf) k) / (coeff (a_max vf) k - coeff (d_a vf) k)) \<and>
    DERIV (\<lambda>t. if V_A vf state k > V_B vf state k then V_A vf (state[k := t]) k
                else V_B vf (state[k := t]) k) (state ! k) :> Gradient vf state ! k \<and>
    DERIV (\<lambda>t. if V_A vf state k > V_B vf state k then V_A vf (state[3 + k := t]) k
                else V_B vf (state[3 + k := t]) k) (state ! (3 + k)) :> Gradient vf state ! (3 + k) \<and>
    ((\<forall>dm<3. coeff (a_max vf) dm \<noteq> coeff (d_a vf) dm) \<and>
     V_A vf state k \<noteq> V_B vf state k \<and>
     (\<forall>j<3. j \<noteq> k \<longrightarrow>
        max (V_A vf state j) (V_B vf state j) < max (V_A vf state k) (V_B vf state k)) \<longrightarrow>
       DERIV (\<lambda>t. Value vf (state[k := t])) (state ! k) :> Gradient vf state ! k \<and>
       DERIV (\<lambda>t. Value vf (state[3 + k := t])) (state ! (3 + k)) :> Gradient vf state ! (3 + k)) \<and>
    ((\<forall>dm<3. coeff (a_max vf) dm \<noteq> coeff (d_a vf) dm) \<and>
     max (V_A vf state k) (V_B vf state k) < Value vf state \<longrightarrow>
       DERIV (\<lambda>t. Value vf (state[k := t])) (state ! k) :> 0 \<and>
       DERIV (\<lambda>t. Value vf (state[3 + k := t])) (state ! (3 + k)) :> 0 \<and>
       Gradient vf state ! k \<noteq> 0)"
proof -
  note g = Gradient_nth [OF assms(2) nzk, of state]
  note pA = DERIV_V_A_position [OF assms(2) assms(1), of vf "state ! k"]
  note pB = DERIV_V_B_position [OF assms(2) assms(1), of vf "state ! k"]
  note vA = DERIV_V_A_velocity [OF assms(2) assms(1), of vf "state ! (3 + k)"]
  note vB = DERIV_V_B_velocity [OF assms(2) assms(1), of vf "state ! (3 + k)"]
  have s1: "DERIV (\<lambda>t. if V_A vf state k > V_B vf state k then V_A vf (state[k := t]) k
                else V_B vf (state[k := t]) k) (state ! k) :> Gradient vf state ! k"
    unfolding g(2) using pA pB by (cases "V_A vf state k > V_B vf state k") simp_all
  have s2: "DERIV (\<lambda>t. if V_A vf state k > V_B vf state k then V_A vf (state[3 + k := t]) k
                else V_B vf (state[3 + k := t]) k) (state ! (3 + k)) :> Gradient vf state ! (3 + k)"
    unfolding g(3) using vA vB by (cases "V_A vf state k > V_B vf state k") simp_all
  have own: "DERIV (\<lambda>t. Value vf (state[k := t])) (state ! k) :> Gradient vf state ! k \<and>
       DERIV (\<lambda>t. Value vf (state[3 + k := t])) (state ! (3 + k)) :> Gradient vf state ! (3 + k)"
    if nz: "\<forall>dm<3. coeff (a_max vf) dm \<noteq> coeff (d_a vf) dm"
      and ne: "V_A vf state k \<noteq> V_B vf state k"
      and top: "\<forall>j<3. j \<noteq> k \<longrightarrow>
        max (V_A vf state j) (V_B vf state j) < max (V_A vf state k) (V_B vf state k)"
  proof (cases "V_A vf state k > V_B vf state k")
    case True
    from DERIV_Value_own_axis(1) [OF assms(2) _ nz pA pB top True]
         DERIV_Value_own_axis(1) [OF assms(2) _ nz vA vB top True]
    show ?thesis unfolding g(2) g(3) using True by simp
  next
    case False
    with ne have lt: "V_A vf state k < V_B vf state k" by simp
    from DERIV_Value_own_axis(2) [OF assms(2) _ nz pA pB top lt]
         DERIV_Value_own_axis(2) [OF assms(2) _ nz vA vB top lt]
    show ?thesis unfolding g(2) g(3) using False by simp
  qed
  have other: "DERIV (\<lambda>t. Value vf (state[k := t])) (state ! k) :> 0 \<and>
       DERIV (\<lambda>t. Value vf (state[3 + k := t])) (state ! (3 + k)) :> 0 \<and>
       Gradient vf state ! k \<noteq> 0"
    if nz: "\<forall>dm<3. coeff (a_max vf) dm \<noteq> coeff (d_a vf) dm"
      and low: "max (V_A vf state k) (V_B vf state k) < Value vf state"
    using DERIV_Value_other_axis [OF assms(2) _ nz pA pB low]
          DERIV_Value_other_axis [OF assms(2) _ nz vA vB low]
    unfolding g(2) by simp
  from g s1 s2 own other show ?thesis by blast
qed

text \<open>
  The state \<open>(10, 1, 1)\<close> at rest, with planner speed 1, \<open>a_max - d_a = 1\<close> and no
  expansion: \<open>V_B\<close> is strictly above \<open>V_A\<close> in every axis and the first axis strictly
  attains the maximum \<open>19/2\<close>. \<^verbatim>\<open>Value\<close> does not change with the second position, whose
  entry in \<^verbatim>\<open>Gradient\<close> is 1.
\<close>

lemma surfaces_example:
  "V_A \<lparr> u_max = Vector3d 1 1 1, u_min = Vector3d (-1) (-1) (-1),
           d_v = Vector3d 0 0 0, d_a = Vector3d 1 1 1,
           a_max = Vector3d 2 2 2, u2a = Vector3d 2 2 2,
           max_planner_speed = Vector3d 1 1 1, expand = Vector3d 0 0 0 \<rparr> [10, 1, 1, 0, 0, 0] 0 = - 21 / 2"
  "V_B \<lparr> u_max = Vector3d 1 1 1, u_min = Vector3d (-1) (-1) (-1),
           d_v = Vector3d 0 0 0, d_a = Vector3d 1 1 1,
           a_max = Vector3d 2 2 2, u2a = Vector3d 2 2 2,
           max_planner_speed = Vector3d 1 1 1, expand = Vector3d 0 0 0 \<rparr> [10, 1, 1, 0, 0, 0] 0 = 19 / 2"
  "V_A \<lparr> u_max = Vector3d 1 1 1, u_min = Vector3d (-1) (-1) (-1),
           d_v = Vector3d 0 0 0, d_a = Vector3d 1 1 1,
           a_max = Vector3d 2 2 2, u2a = Vector3d 2 2 2,
           max_planner_speed = Vector3d 1 1 1, expand = Vector3d 0 0 0 \<rparr> [10, 1, 1, 0, 0, 0] 1 = - 3 / 2"
  "V_B \<lparr> u_max = Vector3d 1 1 1, u_min = Vector3d (-1) (-1) (-1),
           d_v = Vector3d 0 0 0, d_a = Vector3d 1 1 1,
           a_max = Vector3d 2 2 2, u2a = Vector3d 2 2 2,
           max_planner_speed = Vector3d 1 1 1, expand = Vector3d 0 0 0 \<rparr> [10, 1, 1, 0, 0, 0] 1 = 1 / 2"
  "V_A \<lparr> u_max = Vector3d 1 1 1, u_min = Vector3d (-1) (-1) (-1),
           d_v = Vector3d 0 0 0, d_a = Vector3d 1 1 1,
           a_max = Vector3d 2 2 2, u2a = Vector3d 2 2 2,
           max_planner_speed = Vector3d 1 1 1, expand = Vector3d 0 0 0 \<rparr> [10, 1, 1, 0, 0, 0] 2 = - 3 / 2"
  "V_B \<lparr> u_max = Vector3d 1 1 1, u_min = Vector3d (-1) (-1) (-1),
           d_v = Vector3d 0 0 0, d_a = Vector3d 1 1 1,
           a_max = Vector3d 2 2 2, u2a = Vector3d 2 2 2,
           max_planner_speed = Vector3d 1 1 1, expand = Vector3d 0 0 0 \<rparr> [10, 1, 1, 0, 0, 0] 2 = 1 / 2"
  by (simp_all add: V_A_def V_B_def p_dim_def)

theorem Gradient_not_derivative_counterexample:
  "V_A \<lparr> u_max = Vector3d 1 1 1, u_min = Vector3d (-1) (-1) (-1),
           d_v = Vector3d 0 0 0, d_a = Vector3d 1 1 1,
           a_max = Vector3d 2 2 2, u2a = Vector3d 2 2 2,
           max_planner_speed = Vector3d 1 1 1, expand = Vector3d 0 0 0 \<rparr> [10, 1, 1, 0, 0, 0] 0
     < V_B \<lparr> u_max = Vector3d 1 1 1, u_min = Vector3d (-1) (-1) (-1),
           d_v = Vector3d 0 0 0, d_a = Vector3d 1 1 1,
           a_max = Vector3d 2 2 2, u2a = Vector3d 2 2 2,
           max_planner_speed = Vector3d 1 1 1, expand = Vector3d 0 0 0 \<rparr> [10, 1, 1, 0, 0, 0] 0 \<and>
   V_A \<lparr> u_max = Vector3d 1 1 1, u_min = Vector3d (-1) (-1) (-1),
           d_v = Vector3d 0 0 0, d_a = Vector3d 1 1 1,
           a_max = Vector3d 2 2 2, u2a = Vector3d 2 2 2,
           max_planner_speed = Vector3d 1 1 1, expand = Vector3d 0 0 0 \<rparr> [10, 1, 1, 0, 0, 0] 1
     < V_B \<lparr> u_max = Vector3d 1 1 1, u_min = Vector3d (-1) (-1) (-1),
           d_v = Vector3d 0 0 0, d_a = Vector3d 1 1 1,
           a_max = Vector3d 2 2 2, u2a = Vector3d 2 2 2,
           max_planner_speed = Vector3d 1 1 1, expand = Vector3d 0 0 0 \<rparr> [10, 1, 1, 0, 0, 0] 1 \<and>
   V_A \<lparr> u_max = Vector3d 1 1 1, u_min = Vector3d (-1) (-1) (-1),
           d_v = Vector3d 0 0 0, d_a = Vector3d 1 1 1,
           a_max = Vector3d 2 2 2, u2a = Vector3d 2 2 2,
           max_planner_speed = Vector3d 1 1 1, expand = Vector3d 0 0 0 \<rparr> [10, 1, 1, 0, 0, 0] 2
     < V_B \<lparr> u_max = Vector3d 1 1 1, u_min = Vector3d (-1) (-1) (-1),
           d_v = Vector3d 0 0 0, d_a = Vector3d 1 1 1,
           a_max = Vector3d 2 2 2, u2a = Vector3d 2 2 2,
           max_planner_speed = Vector3d 1 1 1, expand = Vector3d 0 0 0 \<rparr> [10, 1, 1, 0, 0, 0] 2 \<and>
   V_B \<lparr> u_max = Vector3d 1 1 1, u_min = Vector3d (-1) (-1) (-1),
           d_v = Vector3d 0 0 0, d_a = Vector3d 1 1 1,
           a_max = Vector3d 2 2 2, u2a = Vector3d 2 2 2,
           max_planner_speed = Vector3d 1 1 1, expand = Vector3d 0 0 0 \<rparr> [10, 1, 1, 0, 0, 0] 1
     < V_B \<lparr> u_max = Vector3d 1 1 1, u_min = Vector3d (-1) (-1) (-1),
           d_v = Vector3d 0 0 0, d_a = Vector3d 1 1 1,
           a_max = Vector3d 2 2 2, u2a = Vector3d 2 2 2,
           max_planner_speed = Vector3d 1 1 1, expand = Vector3d 0 0 0 \<rparr> [10, 1, 1, 0, 0, 0] 0 \<and>
   V_B \<lparr> u_max = Vector3d 1 1 1, u_min = Vector3d (-1) (-1) (-1),
           d_v = Vector3d 0 0 0, d_a = Vector3d 1 1 1,
           a_max = Vector3d 2 2 2, u2a = Vector3d 2 2 2,
           max_planner_speed = Vector3d 1 1 1, expand = Vector3d 0 0 0 \<rparr> [10, 1, 1, 0, 0, 0] 2
     < V_B \<lparr> u_max = Vector3d 1 1 1, u_min = Vector3d (-1) (-1) (-1),
           d_v = Vector3d 0 0 0, d_a = Vector3d 1 1 1,
           a_max = Vector3d 2 2 2, u2a = Vector3d 2 2 2,
           max_planner_speed = Vector3d 1 1 1, expand = Vector3d 0 0 0 \<rparr> [10, 1, 1, 0, 0, 0] 0 \<and>
   Gradient \<lparr> u_max = Vector3d 1 1 1, u_min = Vector3d (-1) (-1) (-1),
           d_v = Vector3d 0 0 0, d_a = Vector3d 1 1 1,
           a_max = Vector3d 2 2 2, u2a = Vector3d 2 2 2,
           max_planner_speed = Vector3d 1 1 1, expand = Vector3d 0 0 0 \<rparr> [10, 1, 1, 0, 0, 0] ! 1 = 1 \<and>
   \<not> DERIV (\<lambda>t. Value \<lparr> u_max = Vector3d 1 1 1, u_min = Vector3d (-1) (-1) (-1),
           d_v = Vector3d 0 0 0, d_a = Vector3d 1 1 1,
           a_max = Vector3d 2 2 2, u2a = Vector3d 2 2 2,
           max_planner_speed = Vector3d 1 1 1, expand = Vector3d 0 0 0 \<rparr> ([10, 1, 1, 0, 0, 0][1 := t]))
        ([10, 1, 1, 0, 0, 0] ! 1)
      :> Gradient \<lparr> u_max = Vector3d 1 1 1, u_min = Vector3d (-1) (-1) (-1),
           d_v = Vector3d 0 0 0, d_a = Vector3d 1 1 1,
           a_max = Vector3d 2 2 2, u2a = Vector3d 2 2 2,
           max_planner_speed = Vector3d 1 1 1, expand = Vector3d 0 0 0 \<rparr> [10, 1, 1, 0, 0, 0] ! 1"
proof -
  let ?vf = "\<lparr> u_max = Vector3d 1 1 1, u_min = Vector3d (-1) (-1) (-1),
           d_v = Vector3d 0 0 0, d_a = Vector3d 1 1 1,
           a_max = Vector3d 2 2 2, u2a = Vector3d 2 2 2,
           max_planner_speed = Vector3d 1 1 1, expand = Vector3d 0 0 0 \<rparr>"
  let ?s = "[10, 1, 1, 0, 0, 0] :: real list"
  have len: "length ?s = 6" by simp
  have k: "(1::nat) < 3" by simp
  have nz: "\<forall>dm<3. coeff (a_max ?vf) dm \<noteq> coeff (d_a ?vf) dm" by (simp add: all_less_3)
  have nzk: "coeff (a_max ?vf) 1 \<noteq> coeff (d_a ?vf) 1" by simp
  have g: "Gradient ?vf ?s ! 1 = 1"
    by (simp only: Gradient_nth(2) [OF k nzk] surfaces_example) simp
  have low: "max (V_A ?vf ?s 1) (V_B ?vf ?s 1) < Value ?vf ?s"
    by (simp only: Value_eq [OF nz] surfaces_example)
  have z: "DERIV (\<lambda>t. Value ?vf (?s[1 := t])) (?s ! 1) :> 0"
    by (rule DERIV_Value_other_axis [OF k _ nz DERIV_V_A_position [OF k len] DERIV_V_B_position [OF k len] low])
       simp
  have "\<not> DERIV (\<lambda>t. Value ?vf (?s[1 := t])) (?s ! 1) :> Gradient ?vf ?s ! 1"
  proof
    assume "DERIV (\<lambda>t. Value ?vf (?s[1 := t])) (?s ! 1) :> Gradient ?vf ?s ! 1"
    from DERIV_unique [OF z this] g show False by simp
  qed
  with g show ?thesis by (simp only: surfaces_example) simp_all
qed

theorem Gradient_active_surface_witness:
  "length [10, 1, 1, 0, 0, 0::real] = 6 \<and>
   Gradient \<lparr> u_max = Vector3d 1 1 1, u_min = Vector3d (-1) (-1) (-1),
           d_v = Vector3d 0 0 0, d_a = Vector3d 1 1 1,
           a_max = Vector3d 2 2 2, u2a = Vector3d 2 2 2,
           max_planner_speed = Vector3d 1 1 1, expand = Vector3d 0 0 0 \<rparr> [10, 1, 1, 0, 0, 0] ! 0 = 1 \<and>
   DERIV (\<lambda>t. Value \<lparr> u_max = Vector3d 1 1 1, u_min = Vector3d (-1) (-1) (-1),
           d_v = Vector3d 0 0 0, d_a = Vector3d 1 1 1,
           a_max = Vector3d 2 2 2, u2a = Vector3d 2 2 2,
           max_planner_speed = Vector3d 1 1 1, expand = Vector3d 0 0 0 \<rparr> ([10, 1, 1, 0, 0, 0][0 := t]))
        ([10, 1, 1, 0, 0, 0] ! 0)
      :> Gradient \<lparr> u_max = Vector3d 1 1 1, u_min = Vector3d (-1) (-1) (-1),
           d_v = Vector3d 0 0 0, d_a = Vector3d 1 1 1,
           a_max = Vector3d 2 2 2, u2a = Vector3d 2 2 2,
           max_planner_speed = Vector3d 1 1 1, expand = Vector3d 0 0 0 \<rparr> [10, 1, 1, 0, 0, 0] ! 0"
proof -
  let ?vf = "\<lparr> u_max = Vector3d 1 1 1, u_min = Vector3d (-1) (-1) (-1),
           d_v = Vector3d 0 0 0, d_a = Vector3d 1 1 1,
           a_max = Vector3d 2 2 2, u2a = Vector3d 2 2 2,
           max_planner_speed = Vector3d 1 1 1, expand = Vector3d 0 0 0 \<rparr>"
  let ?s = "[10, 1, 1, 0, 0, 0] :: real list"
  have len: "length ?s = 6" by simp
  have k: "(0::nat) < 3" by simp
  have ne: "V_A ?vf ?s 0 \<noteq> V_B ?vf ?s 0" by (simp only: surfaces_example)
  have top: "\<forall>j<3. j \<noteq> 0 \<longrightarrow> max (V_A ?vf ?s j) (V_B ?vf ?s j) < max (V_A ?vf ?s 0) (V_B ?vf ?s 0)"
    by (simp only: all_less_3 surfaces_example) simp_all
  have nz: "\<forall>dm<3. coeff (a_max ?vf) dm \<noteq> coeff (d_a ?vf) dm" by (simp add: all_less_3)
  have nzk: "coeff (a_max ?vf) 0 \<noteq> coeff (d_a ?vf) 0" by simp
  note t = Gradient_active_surface [OF len k nzk]
  from t have g: "Gradient ?vf ?s ! 0 = 1" by (simp only: surfaces_example) simp_all
  from t nz ne top have "DERIV (\<lambda>t. Value ?vf (?s[0 := t])) (?s ! 0) :> Gradient ?vf ?s ! 0"
    by blast
  with g len show ?thesis by simp
qed

end
